theory Spec2Isabelle
  imports Complex_Main
begin

section \<open>Satisfaction analytics and chef recommendations of the order routes\<close>

text \<open>
  The development follows \<^verbatim>\<open>src/routes/orderRoutes.js\<close>. JavaScript numbers are
  modelled as exact reals: every arithmetic step below is the real-number value of
  the source expression, without the rounding of IEEE doubles. Timestamps are
  milliseconds since the epoch, as a JavaScript \<^verbatim>\<open>Date\<close> stores them. Strings are
  byte strings.
\<close>

subsection \<open>Numbers\<close>

type_synonym number = real

text \<open>
  \<^verbatim>\<open>parseFloat(x.toFixed(d))\<close>: the decimal with \<open>d\<close> fraction digits nearest to
  \<open>x\<close>; of two equally near ones \<^verbatim>\<open>toFixed\<close> takes the larger for a non-negative
  \<open>x\<close>, and treats a negative \<open>x\<close> through its absolute value.
\<close>

definition toFixed :: "nat \<Rightarrow> number \<Rightarrow> number" where
  "toFixed d x =
     (if x < 0 then - (of_int \<lfloor>(- x) * 10 ^ d + 1 / 2\<rfloor> / 10 ^ d)
      else of_int \<lfloor>x * 10 ^ d + 1 / 2\<rfloor> / 10 ^ d)"

subsection \<open>Documents of the store\<close>

record user =
  user_id :: string
  firstName :: string
  lastName :: string

text \<open>
  One entry of a food item's \<^verbatim>\<open>feedback\<close> array. \<open>userId\<close> is the populated
  author: \<open>None\<close> where the reference is null.
\<close>

record feedbackEntry =
  feedback_id :: string
  userId :: "user option"
  rating :: int
  comment :: string
  createdAt :: int
  reply :: "string option"

record foodItem =
  item_id :: string
  name :: string
  feedback :: "feedbackEntry list"

datatype failure = CapabilityFailure | StoreFailure

subsection \<open>Sentiment classification\<close>

record sentimentResult =
  label :: string
  score :: number

text \<open>
  \<^verbatim>\<open>hf.textClassification\<close>: the hosted classifier, which either throws or answers
  with an array of results.
\<close>

type_synonym classifier = "string \<Rightarrow> failure + sentimentResult list"

definition neutralResult :: sentimentResult where
  "neutralResult = \<lparr>label = ''neutral'', score = 1 / 2\<rparr>"

text \<open>The ASCII characters \<^verbatim>\<open>String.prototype.trim\<close> strips.\<close>

definition isWhitespace :: "char \<Rightarrow> bool" where
  "isWhitespace c = (c \<in> set [CHR 0x09, CHR 0x0A, CHR 0x0B, CHR 0x0C, CHR 0x0D, CHR 0x20])"

definition trim :: "string \<Rightarrow> string" where
  "trim s = rev (dropWhile isWhitespace (rev (dropWhile isWhitespace s)))"

text \<open>
  \<^verbatim>\<open>analyzeSentiment\<close>, returning beside its result the inputs it sent to the hosted
  classifier. Reading \<^verbatim>\<open>result[0].label\<close> of an empty answer throws inside the
  \<^verbatim>\<open>try\<close> block and ends in the same \<^verbatim>\<open>catch\<close> as a failed call.
\<close>

definition analyzeSentimentTraced :: "classifier \<Rightarrow> string \<Rightarrow> sentimentResult \<times> string list" where
  "analyzeSentimentTraced hf text =
     (if text = [] \<or> length (trim text) = 0 then (neutralResult, [])
      else (case hf text of
              Inl e \<Rightarrow> (neutralResult, [text])
            | Inr [] \<Rightarrow> (neutralResult, [text])
            | Inr (r # rest) \<Rightarrow> (\<lparr>label = label r, score = score r\<rparr>, [text])))"

definition analyzeSentiment :: "classifier \<Rightarrow> string \<Rightarrow> sentimentResult" where
  "analyzeSentiment hf text = fst (analyzeSentimentTraced hf text)"

subsection \<open>Sentiment distribution and satisfaction score\<close>

text \<open>
  The distribution is a JavaScript object used as a dictionary from labels to counts;
  \<open>orZero\<close> is \<^verbatim>\<open>v || 0\<close> on a count that may be missing.
\<close>

type_synonym distribution = "string \<rightharpoonup> nat"

definition orZero :: "nat option \<Rightarrow> nat" where
  "orZero v = (case v of None \<Rightarrow> 0 | Some n \<Rightarrow> n)"

definition initialDistribution :: distribution where
  "initialDistribution = [''positive'' \<mapsto> 0, ''neutral'' \<mapsto> 0, ''negative'' \<mapsto> 0]"

definition countLabel :: "distribution \<Rightarrow> sentimentResult \<Rightarrow> distribution" where
  "countLabel acc r = acc(label r \<mapsto> orZero (acc (label r)) + 1)"

definition countLabels :: "sentimentResult list \<Rightarrow> distribution" where
  "countLabels results = foldl countLabel initialDistribution results"

definition calculateSatisfactionScore :: "number \<Rightarrow> distribution \<Rightarrow> number" where
  "calculateSatisfactionScore averageRating sentimentDistribution =
     (let ratingWeight = 6 / 10;
          sentimentWeight = 4 / 10;
          maxSentiment = max (max (orZero (sentimentDistribution ''positive''))
                                  (orZero (sentimentDistribution ''neutral'')))
                             (orZero (sentimentDistribution ''negative''));
          sentimentRatio = (if maxSentiment > 0
                            then of_nat (orZero (sentimentDistribution ''positive'')) / of_nat maxSentiment
                            else 1 / 2)
      in toFixed 2 (averageRating / 5 * ratingWeight + sentimentRatio * sentimentWeight) * 100)"

text \<open>\<^verbatim>\<open>list.reduce((sum, fb) => sum + fb.rating, 0) / list.length\<close>\<close>

definition ratingAverage :: "feedbackEntry list \<Rightarrow> number" where
  "ratingAverage fbs = of_int (foldl (\<lambda>sum fb. sum + rating fb) 0 fbs) / of_nat (length fbs)"

subsection \<open>The store\<close>

text \<open>
  One ordered line of an order: \<open>populatedName\<close> is \<^verbatim>\<open>item.foodItemId?.name\<close> of the
  populated reference, \<open>ownName\<close> is \<^verbatim>\<open>item.name\<close>.
\<close>

record orderLine =
  quantity :: nat
  populatedName :: "string option"
  ownName :: string

record order =
  order_id :: string
  customer :: "string option"
  lines :: "orderLine list"
  status :: string
  totalAmount :: number
  placedAt :: int
  updatedAt :: int

text \<open>
  The collections the routes read and write. A query against an unreachable store
  throws; the routes see that as a rejected promise.
\<close>

record database =
  foodItems :: "foodItem list"
  orders :: "order list"
  reachable :: bool

definition findFoodItems :: "database \<Rightarrow> (foodItem \<Rightarrow> bool) \<Rightarrow> failure + foodItem list" where
  "findFoodItems db matches =
     (if reachable db then Inr (filter matches (foodItems db)) else Inl StoreFailure)"

definition findFoodItemById :: "database \<Rightarrow> string \<Rightarrow> failure + foodItem option" where
  "findFoodItemById db key =
     (if reachable db then Inr (find (\<lambda>item. item_id item = key) (foodItems db))
      else Inl StoreFailure)"

text \<open>\<^verbatim>\<open>fb.userId && fb.userId._id.toString() === id\<close>\<close>

definition writtenBy :: "string \<Rightarrow> feedbackEntry \<Rightarrow> bool" where
  "writtenBy key fb = (case userId fb of None \<Rightarrow> False | Some u \<Rightarrow> user_id u = key)"

subsection \<open>The satisfaction routes\<close>

text \<open>
  The part of the \<^verbatim>\<open>metrics\<close> object the three satisfaction routes compute from
  feedback. The dashboard calls the first field \<^verbatim>\<open>totalReviews\<close>. The other fields of
  the responses (order history, recent feedback samples, customer counts) are projections
  of store documents and are left out.
\<close>

record metrics =
  totalFeedback :: nat
  averageRating :: number
  sentimentDistribution :: distribution
  satisfactionScore :: number

datatype analyticsResponse =
    Metrics metrics
  | NoFeedback
  | InvalidId
  | ItemNotFound
  | Failed

text \<open>
  \<open>Metrics\<close> and \<open>NoFeedback\<close> (\<^verbatim>\<open>hasFeedback: false\<close>, no metrics at all) are sent
  with status 200, \<open>InvalidId\<close> with 400, \<open>ItemNotFound\<close> with 404 and \<open>Failed\<close>,
  the answer of the \<^verbatim>\<open>catch\<close> block, with 500.
\<close>

fun statusCode :: "analyticsResponse \<Rightarrow> nat" where
  "statusCode (Metrics m) = 200"
| "statusCode NoFeedback = 200"
| "statusCode InvalidId = 400"
| "statusCode ItemNotFound = 404"
| "statusCode Failed = 500"

fun scoreOf :: "analyticsResponse \<Rightarrow> number option" where
  "scoreOf (Metrics m) = Some (satisfactionScore m)"
| "scoreOf r = None"

text \<open>
  The block the three routes share word for word: classify every comment, count the
  labels, and call the scorer with the unrounded average.
\<close>

definition feedbackMetrics :: "classifier \<Rightarrow> number \<Rightarrow> feedbackEntry list \<Rightarrow> metrics" where
  "feedbackMetrics hf average fbs =
     (let sentimentResults = map (\<lambda>fb. analyzeSentiment hf (comment fb)) fbs;
          counted = countLabels sentimentResults
      in \<lparr>totalFeedback = length fbs,
          averageRating = toFixed 1 average,
          sentimentDistribution = counted,
          satisfactionScore = calculateSatisfactionScore average counted\<rparr>)"

text \<open>\<^verbatim>\<open>GET /analytics/satisfaction\<close>\<close>

definition satisfactionDashboard :: "database \<Rightarrow> classifier \<Rightarrow> analyticsResponse" where
  "satisfactionDashboard db hf =
     (case findFoodItems db (\<lambda>item. feedback item \<noteq> []) of
        Inl e \<Rightarrow> Failed
      | Inr items \<Rightarrow>
          (let allFeedback = concat (map feedback items);
               totalReviews = length allFeedback;
               average = (if totalReviews > 0 then ratingAverage allFeedback else 0)
           in Metrics (feedbackMetrics hf average allFeedback)))"

text \<open>
  \<^verbatim>\<open>GET /analytics/customers/:id/satisfaction\<close>; \<open>isValid\<close> is
  \<^verbatim>\<open>mongoose.Types.ObjectId.isValid\<close>.
\<close>

definition customerSatisfaction ::
  "(string \<Rightarrow> bool) \<Rightarrow> database \<Rightarrow> classifier \<Rightarrow> string \<Rightarrow> analyticsResponse" where
  "customerSatisfaction isValid db hf key =
     (if \<not> isValid key then InvalidId
      else (case findFoodItems db (\<lambda>item. list_ex (writtenBy key) (feedback item)) of
              Inl e \<Rightarrow> Failed
            | Inr items \<Rightarrow>
                (let customerFeedback = concat (map (\<lambda>item. filter (writtenBy key) (feedback item)) items)
                 in if length customerFeedback = 0 then NoFeedback
                    else Metrics (feedbackMetrics hf (ratingAverage customerFeedback) customerFeedback))))"

text \<open>\<^verbatim>\<open>GET /analytics/food-items/:id/satisfaction\<close>\<close>

definition foodItemSatisfaction ::
  "(string \<Rightarrow> bool) \<Rightarrow> database \<Rightarrow> classifier \<Rightarrow> string \<Rightarrow> analyticsResponse" where
  "foodItemSatisfaction isValid db hf key =
     (if \<not> isValid key then InvalidId
      else (case findFoodItemById db key of
              Inl e \<Rightarrow> Failed
            | Inr None \<Rightarrow> ItemNotFound
            | Inr (Some item) \<Rightarrow>
                (if length (feedback item) = 0 then NoFeedback
                 else Metrics (feedbackMetrics hf (ratingAverage (feedback item)) (feedback item)))))"

subsection \<open>The chef recommendation\<close>

text \<open>
  The hosted capabilities and the host's formatting functions.
  \<open>summarization\<close> and \<open>textGeneration\<close> answer with \<^verbatim>\<open>summary_text\<close> and
  \<^verbatim>\<open>generated_text\<close>, or throw. \<open>numberToString\<close> is the conversion a template
  literal applies to a number, \<open>toFixedString d\<close> is \<^verbatim>\<open>toFixed(d)\<close> as a string and
  \<open>clock\<close> is \<^verbatim>\<open>new Date()\<close>.
\<close>

record capabilities =
  textClassification :: classifier
  summarization :: "string \<Rightarrow> failure + string"
  textGeneration :: "string \<Rightarrow> failure + string"
  toLocaleDateString :: "int \<Rightarrow> string"
  numberToString :: "number \<Rightarrow> string"
  toFixedString :: "nat \<Rightarrow> number \<Rightarrow> string"
  clock :: int

record userFeedback =
  uf_foodItem :: string
  uf_comment :: string
  uf_rating :: int
  uf_createdAt :: int
  uf_foodItemId :: string

text \<open>\<^verbatim>\<open>{...fb, sentiment, sentimentScore}\<close>\<close>

record analysedFeedback = userFeedback +
  sentiment :: string
  sentimentScore :: number

record feedbackSample =
  sample_foodItem :: string
  sample_comment :: string
  sample_rating :: int
  sample_sentiment :: string
  sample_date :: string

record historicalData =
  hist_averageRating :: number
  hist_totalFeedback :: nat
  lastFeedbackDate :: string
  negativeFeedbackCount :: nat
  positiveFeedbackCount :: nat

text \<open>
  The object \<^verbatim>\<open>generateChefRecommendation\<close> returns; \<open>sentimentTag\<close> is its
  \<^verbatim>\<open>sentiment\<close> field. A field one of the three return statements leaves out is
  \<open>None\<close>.
\<close>

record chefRecommendation =
  recommendation :: string
  priority :: string
  sentimentTag :: string
  analyzedAt :: "int option"
  historicalData :: "historicalData option"
  feedbackSamples :: "feedbackSample list option"
  feedbackHistory :: "feedbackSample list option"

fun joinWith :: "string \<Rightarrow> string list \<Rightarrow> string" where
  "joinWith sep [] = []"
| "joinWith sep [x] = x"
| "joinWith sep (x # y # ys) = x @ sep @ joinWith sep (y # ys)"

text \<open>The \<^verbatim>\<open>flatMap\<close> that gathers the user's feedback over the food items found.\<close>

definition collectUserFeedback :: "string \<Rightarrow> foodItem list \<Rightarrow> userFeedback list" where
  "collectUserFeedback key foodItemsWithFeedback =
     concat (map (\<lambda>item.
        map (\<lambda>fb. \<lparr>uf_foodItem = name item, uf_comment = comment fb, uf_rating = rating fb,
                    uf_createdAt = createdAt fb, uf_foodItemId = item_id item\<rparr>)
            (filter (writtenBy key) (feedback item))) foodItemsWithFeedback)"

definition withSentiment :: "userFeedback \<Rightarrow> string \<Rightarrow> number \<Rightarrow> analysedFeedback" where
  "withSentiment fb l s =
     \<lparr>uf_foodItem = uf_foodItem fb, uf_comment = uf_comment fb, uf_rating = uf_rating fb,
      uf_createdAt = uf_createdAt fb, uf_foodItemId = uf_foodItemId fb,
      sentiment = l, sentimentScore = s\<rparr>"

text \<open>
  Step 1, for one comment: the classifier is called on the comment as it is, inside a
  \<^verbatim>\<open>try\<close> of its own.
\<close>

definition classifyFeedback :: "classifier \<Rightarrow> userFeedback \<Rightarrow> analysedFeedback" where
  "classifyFeedback hf fb =
     (case hf (uf_comment fb) of
        Inl e \<Rightarrow> withSentiment fb ''neutral'' (1 / 2)
      | Inr [] \<Rightarrow> withSentiment fb ''neutral'' (1 / 2)
      | Inr (topSentiment # rest) \<Rightarrow> withSentiment fb (label topSentiment) (score topSentiment))"

definition feedbackLine :: "capabilities \<Rightarrow> analysedFeedback \<Rightarrow> string" where
  "feedbackLine caps fb =
     ''On '' @ toLocaleDateString caps (uf_createdAt fb) @ '' for '' @ uf_foodItem fb
     @ '': Rated '' @ numberToString caps (of_int (uf_rating fb)) @ ''/5 - '' @ [CHR 0x22]
     @ uf_comment fb @ [CHR 0x22] @ '' ('' @ sentiment fb @ '', ''
     @ toFixedString caps 1 (sentimentScore fb * 100) @ ''% confidence)''"

text \<open>Step 2: the digest, and its summary or the fallback sentence.\<close>

definition summarizeFeedback :: "capabilities \<Rightarrow> analysedFeedback list \<Rightarrow> string" where
  "summarizeFeedback caps feedbackWithSentiment =
     (let feedbackSummaryText = joinWith [CHR 0x0A] (map (feedbackLine caps) feedbackWithSentiment)
      in case summarization caps feedbackSummaryText of
           Inl e \<Rightarrow> ''Customer has provided mixed feedback across various dishes. Check individual comments for details.''
         | Inr summary_text \<Rightarrow> summary_text)"

definition orderLineText :: "capabilities \<Rightarrow> orderLine \<Rightarrow> string" where
  "orderLineText caps item =
     numberToString caps (of_nat (quantity item)) @ ''x ''
     @ (case populatedName item of
          None \<Rightarrow> ownName item
        | Some n \<Rightarrow> if n = [] then ownName item else n)"

definition chefPrompt :: "string \<Rightarrow> string \<Rightarrow> string" where
  "chefPrompt feedbackSummary currentOrderItems =
     ''As a professional chef, analyze this customer'' @ [CHR 0x27]
     @ ''s feedback history and current order to generate specific cooking recommendations.''
     @ [CHR 0x0A, CHR 0x0A] @ ''CUSTOMER FEEDBACK SUMMARY:'' @ [CHR 0x0A] @ feedbackSummary
     @ [CHR 0x0A, CHR 0x0A] @ ''CURRENT ORDER ITEMS:'' @ [CHR 0x0A] @ currentOrderItems
     @ [CHR 0x0A, CHR 0x0A] @ ''Provide detailed technical suggestions including:''
     @ [CHR 0x0A] @ ''- Seasoning adjustments''
     @ [CHR 0x0A] @ ''- Cooking techniques''
     @ [CHR 0x0A] @ ''- Presentation tips''
     @ [CHR 0x0A] @ ''- Quality control measures''
     @ [CHR 0x0A] @ ''- Any special considerations based on their preferences''"

text \<open>Step 3: the generated guidance, trimmed, or the fallback sentence.\<close>

definition generateGuidance :: "capabilities \<Rightarrow> string \<Rightarrow> orderLine list \<Rightarrow> string" where
  "generateGuidance caps feedbackSummary orderedItems =
     (let currentOrderItems = joinWith '', '' (map (orderLineText caps) orderedItems)
      in case textGeneration caps (chefPrompt feedbackSummary currentOrderItems) of
           Inl e \<Rightarrow> ''Standard preparation recommended. Check customer'' @ [CHR 0x27]
                    @ ''s past feedback for potential preferences.''
         | Inr generated_text \<Rightarrow> trim generated_text)"

definition toSample :: "capabilities \<Rightarrow> analysedFeedback \<Rightarrow> feedbackSample" where
  "toSample caps fb =
     \<lparr>sample_foodItem = uf_foodItem fb, sample_comment = uf_comment fb,
      sample_rating = uf_rating fb, sample_sentiment = sentiment fb,
      sample_date = toLocaleDateString caps (uf_createdAt fb)\<rparr>"

text \<open>
  The body of the outer \<^verbatim>\<open>try\<close> block: the store query may throw, everything after
  it has a \<^verbatim>\<open>catch\<close> of its own. \<^verbatim>\<open>slice(0, 3)\<close> is \<open>take 3\<close>.
\<close>

definition recommendationBody ::
  "capabilities \<Rightarrow> database \<Rightarrow> string \<Rightarrow> orderLine list \<Rightarrow> failure + chefRecommendation" where
  "recommendationBody caps db key orderedItems =
     (case findFoodItems db (\<lambda>item. list_ex (writtenBy key) (feedback item)) of
        Inl e \<Rightarrow> Inl e
      | Inr foodItemsWithFeedback \<Rightarrow>
          (let allUserFeedback = collectUserFeedback key foodItemsWithFeedback
           in if length allUserFeedback = 0
              then Inr \<lparr>recommendation = ''No previous feedback found from this customer. Prepare using standard recipes and presentation.'',
                        priority = ''normal'', sentimentTag = ''neutral'', analyzedAt = None,
                        historicalData = None, feedbackSamples = None, feedbackHistory = Some []\<rparr>
              else
               (let feedbackWithSentiment = map (classifyFeedback (textClassification caps)) allUserFeedback;
                    feedbackSummary = summarizeFeedback caps feedbackWithSentiment;
                    guidance = generateGuidance caps feedbackSummary orderedItems;
                    avgRating = of_int (foldl (\<lambda>sum fb. sum + uf_rating fb) 0 allUserFeedback)
                                / of_nat (length allUserFeedback);
                    negativeCount = length (filter (\<lambda>fb. sentiment fb = ''negative'') feedbackWithSentiment)
                in Inr \<lparr>recommendation = guidance,
                        priority = (if avgRating < 25 / 10 \<or> of_nat negativeCount > of_nat (length allUserFeedback) * (5 / 10 :: number)
                                    then ''high''
                                    else if avgRating > 42 / 10 \<and> negativeCount = 0 then ''low''
                                    else ''normal''),
                        sentimentTag = (if avgRating \<ge> 3 then ''positive''
                                        else if avgRating \<ge> 2 then ''neutral'' else ''negative''),
                        analyzedAt = Some (clock caps),
                        historicalData = Some
                          \<lparr>hist_averageRating = toFixed 1 avgRating,
                           hist_totalFeedback = length allUserFeedback,
                           lastFeedbackDate = toLocaleDateString caps (uf_createdAt (last allUserFeedback)),
                           negativeFeedbackCount = negativeCount,
                           positiveFeedbackCount = length (filter (\<lambda>fb. sentiment fb = ''positive'') feedbackWithSentiment)\<rparr>,
                        feedbackSamples = Some (map (toSample caps) (take 3 feedbackWithSentiment)),
                        feedbackHistory = None\<rparr>)))"

text \<open>The outer \<^verbatim>\<open>catch\<close> turns every failure of the body into a default object.\<close>

definition generateChefRecommendation ::
  "capabilities \<Rightarrow> database \<Rightarrow> string \<Rightarrow> orderLine list \<Rightarrow> chefRecommendation" where
  "generateChefRecommendation caps db key orderedItems =
     (case recommendationBody caps db key orderedItems of
        Inl e \<Rightarrow> \<lparr>recommendation = ''Standard preparation required. Check customer'' @ [CHR 0x27]
                                    @ ''s past ratings for potential preferences.'',
                   priority = ''normal'', sentimentTag = ''neutral'', analyzedAt = Some (clock caps),
                   historicalData = None, feedbackSamples = None, feedbackHistory = Some []\<rparr>
      | Inr result \<Rightarrow> result)"

subsection \<open>Calendar arithmetic\<close>

text \<open>
  Dates are read in UTC: the store's date operators work in UTC, and the host's
  \<^verbatim>\<open>Date\<close> setters are taken in a UTC time zone. \<open>civilFromDays\<close> gives year, month
  (1 to 12) and day of the month of a day number counted from 1970-01-01;
  \<open>daysFromCivil\<close> is its inverse and, like the host's \<^verbatim>\<open>MakeDay\<close>, is used with
  day numbers beyond the end of the month.
\<close>

definition msPerDay :: int where
  "msPerDay = 86400000"

definition civilFromDays :: "int \<Rightarrow> int \<times> int \<times> int" where
  "civilFromDays days =
     (let z = days + 719468;
          era = z div 146097;
          doe = z mod 146097;
          yoe = (doe - doe div 1460 + doe div 36524 - doe div 146096) div 365;
          doy = doe - (365 * yoe + yoe div 4 - yoe div 100);
          mp = (5 * doy + 2) div 153;
          d = doy - (153 * mp + 2) div 5 + 1;
          m = (if mp < 10 then mp + 3 else mp - 9);
          y = yoe + era * 400
      in (if m \<le> 2 then y + 1 else y, m, d))"

definition daysFromCivil :: "int \<Rightarrow> int \<Rightarrow> int \<Rightarrow> int" where
  "daysFromCivil y m d =
     (let y' = (if m \<le> 2 then y - 1 else y);
          era = y' div 400;
          yoe = y' mod 400;
          doy = (153 * (if m > 2 then m - 3 else m + 9) + 2) div 5 + d - 1;
          doe = yoe * 365 + yoe div 4 - yoe div 100 + doy
      in era * 146097 + doe - 719468)"

text \<open>
  The store's date operators on a timestamp: \<^verbatim>\<open>$year\<close>, \<^verbatim>\<open>$month\<close> (1 to 12),
  \<^verbatim>\<open>$dayOfYear\<close> (1 to 366) and \<^verbatim>\<open>$week\<close> (0 to 53; weeks begin on Sunday, the
  days before the first Sunday of the year are week 0). 1970-01-01 was a Thursday.
\<close>

definition dateOperator :: "string \<Rightarrow> int \<Rightarrow> int" where
  "dateOperator operator ms =
     (let days = ms div msPerDay;
          (y, m, d) = civilFromDays days;
          dayOfYear = days - daysFromCivil y 1 1 + 1;
          dayOfWeek = (days + 4) mod 7
      in if operator = ''$year'' then y
         else if operator = ''$month'' then m
         else if operator = ''$dayOfYear'' then dayOfYear
         else (dayOfYear + 6 - dayOfWeek) div 7)"

definition getDateGrouping :: "string \<Rightarrow> string" where
  "getDateGrouping period =
     (if period = ''day'' then ''$dayOfYear''
      else if period = ''week'' then ''$week''
      else if period = ''month'' then ''$month''
      else if period = ''year'' then ''$year''
      else ''$month'')"

text \<open>
  \<^verbatim>\<open>getNextPeriodDate\<close>: \<^verbatim>\<open>setDate\<close>, \<^verbatim>\<open>setMonth\<close> and \<^verbatim>\<open>setFullYear\<close> rebuild the
  day from the changed calendar fields and keep the time within the day. A period other
  than the four leaves the date as it is.
\<close>

definition getNextPeriodDate :: "int \<Rightarrow> string \<Rightarrow> int" where
  "getNextPeriodDate date period =
     (let (y, m, d) = civilFromDays (date div msPerDay);
          timeInDay = date mod msPerDay
      in if period = ''day'' then (daysFromCivil y m 1 + (d + 1) - 1) * msPerDay + timeInDay
         else if period = ''week'' then (daysFromCivil y m 1 + (d + 7) - 1) * msPerDay + timeInDay
         else if period = ''month''
           then (daysFromCivil (y + m div 12) (m mod 12 + 1) 1 + d - 1) * msPerDay + timeInDay
         else if period = ''year'' then (daysFromCivil (y + 1) m 1 + d - 1) * msPerDay + timeInDay
         else date)"

subsection \<open>The satisfaction trend\<close>

record trendBucket =
  bucket_id :: int
  bucketAverage :: number
  bucketCount :: nat

record trendPoint = trendBucket +
  bucketSentiment :: distribution

datatype trendResponse = Trend string "trendPoint list" | TrendFailed

text \<open>\<^verbatim>\<open>{ $unwind: '$feedback' }\<close>: one document for each feedback entry of each item.\<close>

definition unwindFeedback :: "database \<Rightarrow> failure + feedbackEntry list" where
  "unwindFeedback db =
     (if reachable db then Inr (concat (map feedback (foodItems db))) else Inl StoreFailure)"

text \<open>
  The \<^verbatim>\<open>$group\<close> stage: one bucket for each value of the date operator, with the
  average rating and the number of all the entries that have that value.
\<close>

definition groupByDate :: "string \<Rightarrow> feedbackEntry list \<Rightarrow> trendBucket list" where
  "groupByDate operator fbs =
     map (\<lambda>k. let members = filter (\<lambda>fb. dateOperator operator (createdAt fb) = k) fbs
               in \<lparr>bucket_id = k,
                   bucketAverage = of_int (sum_list (map rating members)) / of_nat (length members),
                   bucketCount = length members\<rparr>)
         (remdups (map (\<lambda>fb. dateOperator operator (createdAt fb)) fbs))"

text \<open>The first pipeline: \<^verbatim>\<open>$group\<close>, \<^verbatim>\<open>{ $sort: { _id: 1 } }\<close>, \<^verbatim>\<open>{ $limit: 30 }\<close>.\<close>

definition trendBuckets :: "string \<Rightarrow> feedbackEntry list \<Rightarrow> trendBucket list" where
  "trendBuckets period fbs = take 30 (sort_key bucket_id (groupByDate (getDateGrouping period) fbs))"

text \<open>
  The second pipeline, run for one bucket: the entries created from
  \<^verbatim>\<open>new Date(periodData._id)\<close> up to, not including, the next period date, and a
  \<^verbatim>\<open>$sample\<close> of size 10 of them. \<^verbatim>\<open>new Date(n)\<close> of a number is the timestamp
  \<open>n\<close>. \<open>sample\<close> stands for the store's random choice.
\<close>

definition feedbackInPeriod ::
  "(nat \<Rightarrow> feedbackEntry list \<Rightarrow> feedbackEntry list) \<Rightarrow> string \<Rightarrow> feedbackEntry list \<Rightarrow> int
     \<Rightarrow> feedbackEntry list" where
  "feedbackInPeriod sample period fbs bucketKey =
     sample 10 (filter (\<lambda>fb. bucketKey \<le> createdAt fb
                              \<and> createdAt fb < getNextPeriodDate bucketKey period) fbs)"

text \<open>
  \<^verbatim>\<open>GET /analytics/satisfaction-trend\<close>; \<open>query\<close> is \<^verbatim>\<open>req.query.period\<close>, with
  \<^verbatim>\<open>'month'\<close> in its place when it is missing.
\<close>

definition satisfactionTrend ::
  "database \<Rightarrow> classifier \<Rightarrow> (nat \<Rightarrow> feedbackEntry list \<Rightarrow> feedbackEntry list) \<Rightarrow> string option
     \<Rightarrow> trendResponse" where
  "satisfactionTrend db hf sample query =
     (let period = (case query of None \<Rightarrow> ''month'' | Some p \<Rightarrow> p)
      in case unwindFeedback db of
           Inl e \<Rightarrow> TrendFailed
         | Inr fbs \<Rightarrow>
             Trend period
               (map (\<lambda>periodData.
                  let sentimentAnalysis =
                        map (\<lambda>fb. analyzeSentiment hf (comment fb))
                            (feedbackInPeriod sample period fbs (bucket_id periodData))
                  in \<lparr>bucket_id = bucket_id periodData,
                      bucketAverage = bucketAverage periodData,
                      bucketCount = bucketCount periodData,
                      bucketSentiment = countLabels sentimentAnalysis\<rparr>)
                (trendBuckets period fbs)))"

subsection \<open>Order status\<close>

definition validStatuses :: "string list" where
  "validStatuses = [''pending'', ''preparing'', ''ready'', ''completed'', ''cancelled'']"

text \<open>
  \<^verbatim>\<open>Order.findByIdAndUpdate(id, { status, updatedAt }, { new: true })\<close>: the first
  order with the id gets the two fields and is returned as updated; without such an
  order the answer is null and nothing changes.
\<close>

fun updateFirst :: "string \<Rightarrow> (order \<Rightarrow> order) \<Rightarrow> order list \<Rightarrow> order list" where
  "updateFirst key f [] = []"
| "updateFirst key f (x # xs) = (if order_id x = key then f x # xs else x # updateFirst key f xs)"

definition findByIdAndUpdate ::
  "database \<Rightarrow> string \<Rightarrow> string \<Rightarrow> int \<Rightarrow> failure + (order option \<times> database)" where
  "findByIdAndUpdate db key newStatus now =
     (if reachable db
      then (case find (\<lambda>x. order_id x = key) (orders db) of
              None \<Rightarrow> Inr (None, db)
            | Some found \<Rightarrow>
                Inr (Some (found\<lparr>status := newStatus, updatedAt := now\<rparr>),
                     db\<lparr>orders := updateFirst key (\<lambda>x. x\<lparr>status := newStatus, updatedAt := now\<rparr>) (orders db)\<rparr>))
      else Inl StoreFailure)"

datatype statusResponse =
    Updated order
  | InvalidStatus
  | OrderNotFound
  | UpdateFailed

fun statusResponseCode :: "statusResponse \<Rightarrow> nat" where
  "statusResponseCode (Updated x) = 200"
| "statusResponseCode InvalidStatus = 400"
| "statusResponseCode OrderNotFound = 404"
| "statusResponseCode UpdateFailed = 500"

text \<open>
  \<^verbatim>\<open>PATCH /:id/status\<close>, returning the response and the store after the request.
  \<open>requested\<close> is \<^verbatim>\<open>req.body.status\<close>, \<open>None\<close> when the body has no such field.
\<close>

definition updateOrderStatus ::
  "database \<Rightarrow> string \<Rightarrow> string option \<Rightarrow> int \<Rightarrow> statusResponse \<times> database" where
  "updateOrderStatus db key requested now =
     (case requested of
        None \<Rightarrow> (InvalidStatus, db)
      | Some newStatus \<Rightarrow>
          if newStatus \<notin> set validStatuses then (InvalidStatus, db)
          else (case findByIdAndUpdate db key newStatus now of
                  Inl e \<Rightarrow> (UpdateFailed, db)
                | Inr (None, db') \<Rightarrow> (OrderNotFound, db')
                | Inr (Some updated, db') \<Rightarrow> (Updated updated, db')))"

subsection \<open>Scopes and the specification's formulas\<close>

text \<open>
  The feedback scope of each satisfaction request, as the route gathers it: every entry
  of every item that has feedback, the entries a customer wrote, the entries of one item.
\<close>

definition dashboardScope :: "database \<Rightarrow> feedbackEntry list" where
  "dashboardScope db = concat (map feedback (filter (\<lambda>item. feedback item \<noteq> []) (foodItems db)))"

definition customerScope :: "database \<Rightarrow> string \<Rightarrow> feedbackEntry list" where
  "customerScope db key =
     concat (map (\<lambda>item. filter (writtenBy key) (feedback item))
                 (filter (\<lambda>item. list_ex (writtenBy key) (feedback item)) (foodItems db)))"

definition itemScope :: "database \<Rightarrow> string \<Rightarrow> feedbackEntry list" where
  "itemScope db key =
     (case find (\<lambda>item. item_id item = key) (foodItems db) of
        None \<Rightarrow> []
      | Some item \<Rightarrow> feedback item)"

text \<open>The data model's invariant on ratings: every stored rating is 1 to 5.\<close>

definition ratingsInRange :: "database \<Rightarrow> bool" where
  "ratingsInRange db =
     list_all (\<lambda>item. list_all (\<lambda>fb. 1 \<le> rating fb \<and> rating fb \<le> 5) (feedback item)) (foodItems db)"

text \<open>
  The sum the distribution invariant speaks about, the three labels, and the entries of a
  scope whose classification carries one of them.
\<close>

definition distributionTotal :: "distribution \<Rightarrow> nat" where
  "distributionTotal d = orZero (d ''positive'') + orZero (d ''neutral'') + orZero (d ''negative'')"

definition knownLabel :: "string \<Rightarrow> bool" where
  "knownLabel l = (l \<in> set [''positive'', ''neutral'', ''negative''])"

definition knownScope :: "classifier \<Rightarrow> feedbackEntry list \<Rightarrow> feedbackEntry list" where
  "knownScope hf scope = filter (\<lambda>fb. knownLabel (label (analyzeSentiment hf (comment fb)))) scope"


text \<open>
  The key the trend groups an entry by, and the population of the bucket with a key.
\<close>

definition periodKey :: "string \<Rightarrow> feedbackEntry \<Rightarrow> int" where
  "periodKey period fb = dateOperator (getDateGrouping period) (createdAt fb)"

definition bucketMembers :: "string \<Rightarrow> feedbackEntry list \<Rightarrow> int \<Rightarrow> feedbackEntry list" where
  "bucketMembers period fbs k = filter (\<lambda>fb. periodKey period fb = k) fbs"

text \<open>
  The feedback history of a customer as \<^verbatim>\<open>generateChefRecommendation\<close> gathers it, its
  average rating, and the number of its entries classified as negative.
\<close>

definition userHistory :: "database \<Rightarrow> string \<Rightarrow> userFeedback list" where
  "userHistory db key =
     collectUserFeedback key (filter (\<lambda>item. list_ex (writtenBy key) (feedback item)) (foodItems db))"

definition historyAverage :: "userFeedback list \<Rightarrow> number" where
  "historyAverage history = of_int (sum_list (map uf_rating history)) / of_nat (length history)"

definition negativeCountOf :: "classifier \<Rightarrow> userFeedback list \<Rightarrow> nat" where
  "negativeCountOf hf history =
     length (filter (\<lambda>fb. sentiment (classifyFeedback hf fb) = ''negative'') history)"

text \<open>Priority and overall sentiment as the specification words them.\<close>

definition specPriority :: "number \<Rightarrow> nat \<Rightarrow> nat \<Rightarrow> string" where
  "specPriority averageOfRatings negativeCount totalCount =
     (if averageOfRatings < 25 / 10 \<or> of_nat negativeCount > (5 / 10) * (of_nat totalCount :: number)
      then ''high''
      else if averageOfRatings > 42 / 10 \<and> negativeCount = 0 then ''low''
      else ''normal'')"

definition specSentiment :: "number \<Rightarrow> string" where
  "specSentiment averageOfRatings =
     (if averageOfRatings \<ge> 3 then ''positive''
      else if averageOfRatings \<ge> 2 then ''neutral''
      else ''negative'')"

subsection \<open>Example data\<close>

definition sampleEntry :: "string \<Rightarrow> int \<Rightarrow> string \<Rightarrow> int \<Rightarrow> feedbackEntry" where
  "sampleEntry author stars text created =
     \<lparr>feedback_id = text, userId = Some \<lparr>user_id = author, firstName = ''Ada'', lastName = ''Lo''\<rparr>,
      rating = stars, comment = text, createdAt = created, reply = None\<rparr>"

definition sampleClassifier :: classifier where
  "sampleClassifier text =
     (if text = ''down'' then Inl CapabilityFailure
      else if text = ''bad'' then Inr [\<lparr>label = ''negative'', score = 9 / 10\<rparr>]
      else if text = ''odd'' then Inr [\<lparr>label = ''LABEL_2'', score = 9 / 10\<rparr>]
      else Inr [\<lparr>label = ''positive'', score = 9 / 10\<rparr>])"

definition alwaysPositive :: classifier where
  "alwaysPositive text = Inr [\<lparr>label = ''positive'', score = 9 / 10\<rparr>]"

definition sampleCapabilities :: capabilities where
  "sampleCapabilities =
     \<lparr>textClassification = sampleClassifier,
      summarization = (\<lambda>text. Inl CapabilityFailure),
      textGeneration = (\<lambda>prompt. Inr '' Sear gently. ''),
      toLocaleDateString = (\<lambda>ms. ''a day''),
      numberToString = (\<lambda>x. ''n''),
      toFixedString = (\<lambda>d x. ''n''),
      clock = 0\<rparr>"

definition sampleStore :: "feedbackEntry list \<Rightarrow> database" where
  "sampleStore fbs = \<lparr>foodItems = [\<lparr>item_id = ''i1'', name = ''Soup'', feedback = fbs\<rparr>],
                       orders = [], reachable = True\<rparr>"

definition emptyStore :: database where
  "emptyStore = \<lparr>foodItems = [], orders = [], reachable = True\<rparr>"

definition fiveRatings :: "feedbackEntry list" where
  "fiveRatings = [sampleEntry ''u1'' 5 ''good'' 1, sampleEntry ''u1'' 5 ''fine'' 2,
                  sampleEntry ''u1'' 5 ''nice'' 3, sampleEntry ''u1'' 5 ''tasty'' 4,
                  sampleEntry ''u1'' 1 ''bad'' 5]"

definition fourComments :: "feedbackEntry list" where
  "fourComments = [sampleEntry ''u1'' 5 ''good'' 1, sampleEntry ''u1'' 4 ''fine'' 2,
                   sampleEntry ''u1'' 2 ''bad'' 3, sampleEntry ''u1'' 5 ''tasty'' 4]"

text \<open>
  Example feedback: one entry on each of the 31 days of January 1970; one entry on 15
  January 2023 and one on 15 January 2024; one entry on 15 May 2024.
\<close>

definition januaryDays :: "feedbackEntry list" where
  "januaryDays = map (\<lambda>k. sampleEntry ''u1'' 5 ''good'' (k * 86400000))
     [0, 1, 2, 3, 4, 5, 6, 7, 8, 9, 10, 11, 12, 13, 14, 15, 16, 17, 18, 19, 20,
      21, 22, 23, 24, 25, 26, 27, 28, 29, 30]"

definition twoJanuaries :: "feedbackEntry list" where
  "twoJanuaries = [sampleEntry ''u1'' 5 ''good'' 1673740800000, sampleEntry ''u1'' 3 ''fine'' 1705276800000]"

definition oneMay :: "feedbackEntry list" where
  "oneMay = [sampleEntry ''u1'' 5 ''good'' 1715731200000]"

definition sampleOrder :: "string \<Rightarrow> string \<Rightarrow> order" where
  "sampleOrder key state =
     \<lparr>order_id = key, customer = Some ''u1'',
      lines = [\<lparr>quantity = 2, populatedName = Some ''Soup'', ownName = ''Soup''\<rparr>],
      status = state, totalAmount = 18, placedAt = 100, updatedAt = 100\<rparr>"

definition orderStore :: "bool \<Rightarrow> database" where
  "orderStore up = \<lparr>foodItems = [], orders = [sampleOrder ''o1'' ''pending'', sampleOrder ''o2'' ''ready''],
                     reachable = up\<rparr>"

section \<open>Properties\<close>

subsection \<open>Counting labels, averages and rounding\<close>

lemma countLabel_lookup:
  "orZero (foldl countLabel acc rs k) = orZero (acc k) + length (filter (\<lambda>r. label r = k) rs)"
  by (induction rs arbitrary: acc) (auto simp: countLabel_def orZero_def)

lemma countLabels_lookup:
  "orZero (countLabels rs k) = (length (filter (\<lambda>r. label r = k) rs))"
  unfolding countLabels_def countLabel_lookup by (simp add: initialDistribution_def orZero_def)

lemma distributionTotal_countLabels:
  "distributionTotal (countLabels rs) = length (filter (\<lambda>r. knownLabel (label r)) rs)"
  unfolding distributionTotal_def countLabels_lookup
  by (induction rs) (auto simp: knownLabel_def)

lemma foldl_rating_sum:
  "foldl (\<lambda>sum fb. sum + rating fb) a fbs = a + sum_list (map rating fbs)"
  by (induction fbs arbitrary: a) auto

lemma toFixed_near: "\<bar>toFixed d x - x\<bar> \<le> 1 / (2 * 10 ^ d)"
proof -
  have near: "\<bar>of_int \<lfloor>y + 1 / 2\<rfloor> - y\<bar> \<le> 1 / 2" for y :: real
    by linarith
  have scale: "\<bar>of_int \<lfloor>y * 10 ^ d + 1 / 2\<rfloor> / 10 ^ d - y\<bar> \<le> 1 / (2 * 10 ^ d)" for y :: real
  proof -
    have "\<bar>of_int \<lfloor>y * 10 ^ d + 1 / 2\<rfloor> / 10 ^ d - y\<bar>
        = \<bar>of_int \<lfloor>y * 10 ^ d + 1 / 2\<rfloor> - y * 10 ^ d\<bar> / 10 ^ d"
      by (simp add: field_simps)
    also have "\<dots> \<le> (1 / 2) / 10 ^ d"
      by (rule divide_right_mono [OF near]) simp
    finally show ?thesis by simp
  qed
  show ?thesis
  proof (cases "x < 0")
    case True
    have "\<bar>toFixed d x - x\<bar> = \<bar>of_int \<lfloor>(- x) * 10 ^ d + 1 / 2\<rfloor> / 10 ^ d - (- x)\<bar>"
      using True by (simp add: toFixed_def abs_minus_commute)
    then show ?thesis using scale [of "- x"] by simp
  next
    case False
    then show ?thesis using scale [of x] by (simp add: toFixed_def)
  qed
qed

lemma toFixed_unit_range:
  assumes "0 \<le> x" and "x \<le> 1"
  shows "0 \<le> toFixed 2 x * 100 \<and> toFixed 2 x * 100 \<le> 100"
proof -
  have eq: "toFixed 2 x * 100 = of_int \<lfloor>x * 100 + 1 / 2\<rfloor>"
    using assms by (simp add: toFixed_def)
  have "0 \<le> \<lfloor>x * 100 + 1 / 2\<rfloor>" using assms by simp
  moreover have "\<lfloor>x * 100 + 1 / 2\<rfloor> \<le> 100"
  proof -
    have "x * 100 + 1 / 2 < 101" using assms by simp
    then have "\<lfloor>x * 100 + 1 / 2\<rfloor> < 101" by (simp add: floor_less_iff)
    then show ?thesis by simp
  qed
  ultimately show ?thesis unfolding eq by simp
qed

lemma ratingAverage_range:
  assumes "fbs \<noteq> []" and "list_all (\<lambda>fb. 1 \<le> rating fb \<and> rating fb \<le> 5) fbs"
  shows "1 \<le> ratingAverage fbs \<and> ratingAverage fbs \<le> 5"
proof -
  have lo: "int (length xs) \<le> sum_list (map rating xs)"
    if "list_all (\<lambda>fb. 1 \<le> rating fb \<and> rating fb \<le> 5) xs" for xs :: "feedbackEntry list"
    using that by (induction xs) auto
  have hi: "sum_list (map rating xs) \<le> 5 * int (length xs)"
    if "list_all (\<lambda>fb. 1 \<le> rating fb \<and> rating fb \<le> 5) xs" for xs :: "feedbackEntry list"
    using that by (induction xs) auto
  have n: "0 < real (length fbs)" using assms(1) by simp
  have "real (length fbs) \<le> real_of_int (sum_list (map rating fbs))"
    using lo [OF assms(2)] by (metis of_int_le_iff of_int_of_nat_eq)
  moreover have "real_of_int (sum_list (map rating fbs)) \<le> 5 * real (length fbs)"
    using hi [OF assms(2)] by (metis of_int_le_iff of_int_of_nat_eq of_int_mult of_int_numeral)
  ultimately show ?thesis
    using n by (simp add: ratingAverage_def foldl_rating_sum field_simps)
qed

lemma score_range:
  assumes "0 \<le> a" and "a \<le> 5"
  shows "0 \<le> calculateSatisfactionScore a d \<and> calculateSatisfactionScore a d \<le> 100"
proof -
  define p where "p = orZero (d ''positive'')"
  define m where "m = max (max p (orZero (d ''neutral''))) (orZero (d ''negative''))"
  define r :: real where "r = (if m > 0 then of_nat p / of_nat m else 1 / 2)"
  have pm: "p \<le> m" by (simp add: m_def)
  have r01: "0 \<le> r \<and> r \<le> 1"
    using pm by (simp add: r_def)
  have x0: "0 \<le> a / 5 * (6 / 10) + r * (4 / 10)" using assms r01 by simp
  have x1: "a / 5 * (6 / 10) + r * (4 / 10) \<le> 1" using assms r01 by simp
  have "calculateSatisfactionScore a d = toFixed 2 (a / 5 * (6 / 10) + r * (4 / 10)) * 100"
    by (simp add: calculateSatisfactionScore_def Let_def r_def m_def p_def)
  then show ?thesis using toFixed_unit_range [OF x0 x1] by simp
qed


lemma analyze_eval [simp]:
  "analyzeSentiment sampleClassifier ''good'' = \<lparr>label = ''positive'', score = 9 / 10\<rparr>"
  "analyzeSentiment sampleClassifier ''fine'' = \<lparr>label = ''positive'', score = 9 / 10\<rparr>"
  "analyzeSentiment sampleClassifier ''nice'' = \<lparr>label = ''positive'', score = 9 / 10\<rparr>"
  "analyzeSentiment sampleClassifier ''tasty'' = \<lparr>label = ''positive'', score = 9 / 10\<rparr>"
  "analyzeSentiment sampleClassifier ''bad'' = \<lparr>label = ''negative'', score = 9 / 10\<rparr>"
  "analyzeSentiment sampleClassifier ''odd'' = \<lparr>label = ''LABEL_2'', score = 9 / 10\<rparr>"
  "analyzeSentiment sampleClassifier ''down'' = neutralResult"
  by (simp_all add: analyzeSentiment_def analyzeSentimentTraced_def sampleClassifier_def
        trim_def isWhitespace_def)

subsection \<open>The satisfaction score\<close>



subsection \<open>The satisfaction routes by scope\<close>

lemma dashboard_core:
  "(let allFeedback = X;
        totalReviews = length allFeedback;
        average = (if totalReviews > 0 then ratingAverage allFeedback else 0)
    in Metrics (feedbackMetrics hf average allFeedback))
   = Metrics (feedbackMetrics hf (if X = [] then 0 else ratingAverage X) X)"
  by (cases X) (simp_all add: Let_def)

lemma dashboard_by_scope:
  "satisfactionDashboard db hf =
     (if reachable db
      then Metrics (feedbackMetrics hf
                      (if dashboardScope db = [] then 0 else ratingAverage (dashboardScope db))
                      (dashboardScope db))
      else Failed)"
  unfolding satisfactionDashboard_def findFoodItems_def dashboardScope_def dashboard_core
  by (cases "reachable db") (simp_all only: if_True if_False sum.case)

lemma customer_core:
  "(let customerFeedback = X
    in if length customerFeedback = 0 then NoFeedback
       else Metrics (feedbackMetrics hf (ratingAverage customerFeedback) customerFeedback))
   = (if X = [] then NoFeedback else Metrics (feedbackMetrics hf (ratingAverage X) X))"
  by (cases X) (simp_all add: Let_def)

lemma customer_by_scope:
  "customerSatisfaction isValid db hf key =
     (if \<not> isValid key then InvalidId
      else if \<not> reachable db then Failed
      else if customerScope db key = [] then NoFeedback
      else Metrics (feedbackMetrics hf (ratingAverage (customerScope db key)) (customerScope db key)))"
  unfolding customerSatisfaction_def findFoodItems_def customerScope_def customer_core
  by (cases "reachable db"; cases "isValid key") (simp_all only: if_True if_False sum.case not_True_eq_False not_False_eq_True)

lemma foodItem_by_scope:
  "foodItemSatisfaction isValid db hf key =
     (if \<not> isValid key then InvalidId
      else if \<not> reachable db then Failed
      else if find (\<lambda>item. item_id item = key) (foodItems db) = None then ItemNotFound
      else if itemScope db key = [] then NoFeedback
      else Metrics (feedbackMetrics hf (ratingAverage (itemScope db key)) (itemScope db key)))"
  by (auto simp: foodItemSatisfaction_def findFoodItemById_def itemScope_def split: option.splits)


lemma dashboardScope_range:
  "ratingsInRange db \<Longrightarrow> list_all (\<lambda>fb. 1 \<le> rating fb \<and> rating fb \<le> 5) (dashboardScope db)"
  by (auto simp: ratingsInRange_def dashboardScope_def list_all_iff)

lemma customerScope_range:
  "ratingsInRange db \<Longrightarrow> list_all (\<lambda>fb. 1 \<le> rating fb \<and> rating fb \<le> 5) (customerScope db key)"
  by (auto simp: ratingsInRange_def customerScope_def list_all_iff)

lemma itemScope_range:
  "ratingsInRange db \<Longrightarrow> list_all (\<lambda>fb. 1 \<le> rating fb \<and> rating fb \<le> 5) (itemScope db key)"
  by (auto simp: ratingsInRange_def itemScope_def list_all_iff split: option.splits dest: find_Some_iff [THEN iffD1])
    (metis find_Some_iff nth_mem)+

lemma metrics_score_range:
  assumes "list_all (\<lambda>fb. 1 \<le> rating fb \<and> rating fb \<le> 5) fbs"
    and "a = (if fbs = [] then 0 else ratingAverage fbs)"
  shows "0 \<le> satisfactionScore (feedbackMetrics hf a fbs)
       \<and> satisfactionScore (feedbackMetrics hf a fbs) \<le> 100"
proof -
  have "0 \<le> a \<and> a \<le> 5"
    using assms ratingAverage_range [of fbs] by (cases "fbs = []") auto
  then show ?thesis
    using score_range [of a] by (simp add: feedbackMetrics_def Let_def)
qed

subsection \<open>Range of the score and the empty scope\<close>

text \<open>
  Claim C2, as amended. With every stored rating between 1 and 5, a satisfaction score
  returned by the dashboard, the customer profile or the item analysis lies between 0 and
  100. The customer profile and the item analysis return no score when their scope has no
  feedback. The dashboard computes a score whenever the store answers, for the empty scope
  too, from the average 0 and the labels counted.
\<close>

theorem score_range_and_empty_scope:
  assumes "ratingsInRange db"
  shows "(scoreOf (satisfactionDashboard db hf) = Some s \<longrightarrow> 0 \<le> s \<and> s \<le> 100)
       \<and> (scoreOf (customerSatisfaction isValid db hf key) = Some s \<longrightarrow> 0 \<le> s \<and> s \<le> 100)
       \<and> (scoreOf (foodItemSatisfaction isValid db hf key) = Some s \<longrightarrow> 0 \<le> s \<and> s \<le> 100)
       \<and> (customerScope db key = [] \<longrightarrow> scoreOf (customerSatisfaction isValid db hf key) = None)
       \<and> (itemScope db key = [] \<longrightarrow> scoreOf (foodItemSatisfaction isValid db hf key) = None)
       \<and> (reachable db \<longrightarrow>
            scoreOf (satisfactionDashboard db hf)
              = Some (calculateSatisfactionScore
                        (if dashboardScope db = [] then 0 else ratingAverage (dashboardScope db))
                        (countLabels (map (\<lambda>fb. analyzeSentiment hf (comment fb)) (dashboardScope db)))))"
proof (intro conjI impI)
  assume "scoreOf (satisfactionDashboard db hf) = Some s"
  then have "s = satisfactionScore (feedbackMetrics hf
                      (if dashboardScope db = [] then 0 else ratingAverage (dashboardScope db))
                      (dashboardScope db))"
    by (auto simp: dashboard_by_scope split: if_splits)
  then show "0 \<le> s" and "s \<le> 100"
    using metrics_score_range [OF dashboardScope_range [OF assms] refl, of hf] by simp_all
next
  assume "scoreOf (customerSatisfaction isValid db hf key) = Some s"
  then have "customerScope db key \<noteq> []"
    and "s = satisfactionScore (feedbackMetrics hf (ratingAverage (customerScope db key)) (customerScope db key))"
    by (auto simp: customer_by_scope split: if_splits)
  then show "0 \<le> s" and "s \<le> 100"
    using metrics_score_range [OF customerScope_range [OF assms, of key], of "ratingAverage (customerScope db key)" hf]
    by simp_all
next
  assume "scoreOf (foodItemSatisfaction isValid db hf key) = Some s"
  then have "itemScope db key \<noteq> []"
    and "s = satisfactionScore (feedbackMetrics hf (ratingAverage (itemScope db key)) (itemScope db key))"
    by (auto simp: foodItem_by_scope split: if_splits)
  then show "0 \<le> s" and "s \<le> 100"
    using metrics_score_range [OF itemScope_range [OF assms, of key], of "ratingAverage (itemScope db key)" hf]
    by simp_all
next
  assume "customerScope db key = []"
  then show "scoreOf (customerSatisfaction isValid db hf key) = None"
    by (simp add: customer_by_scope)
next
  assume "itemScope db key = []"
  then show "scoreOf (foodItemSatisfaction isValid db hf key) = None"
    by (simp add: foodItem_by_scope)
next
  assume "reachable db"
  then show "scoreOf (satisfactionDashboard db hf)
              = Some (calculateSatisfactionScore
                        (if dashboardScope db = [] then 0 else ratingAverage (dashboardScope db))
                        (countLabels (map (\<lambda>fb. analyzeSentiment hf (comment fb)) (dashboardScope db))))"
    by (simp add: dashboard_by_scope feedbackMetrics_def Let_def)
qed

theorem score_range_and_empty_scope_witness:
  "ratingsInRange (sampleStore fiveRatings)
   \<and> scoreOf (satisfactionDashboard (sampleStore fiveRatings) sampleClassifier)
       = Some (satisfactionScore (feedbackMetrics sampleClassifier (42 / 10) fiveRatings))
   \<and> 0 \<le> satisfactionScore (feedbackMetrics sampleClassifier (42 / 10) fiveRatings)
   \<and> satisfactionScore (feedbackMetrics sampleClassifier (42 / 10) fiveRatings) \<le> 100
   \<and> customerScope (sampleStore fiveRatings) ''u2'' = []
   \<and> scoreOf (customerSatisfaction (\<lambda>k. True) (sampleStore fiveRatings) sampleClassifier ''u2'') = None"
proof -
  have range: "ratingsInRange (sampleStore fiveRatings)"
    by (simp add: ratingsInRange_def sampleStore_def fiveRatings_def sampleEntry_def)
  have scope: "dashboardScope (sampleStore fiveRatings) = fiveRatings"
    by (simp add: dashboardScope_def sampleStore_def fiveRatings_def)
  have some: "fiveRatings \<noteq> []" by (simp add: fiveRatings_def)
  have avg: "ratingAverage fiveRatings = 42 / 10"
    by (simp add: ratingAverage_def fiveRatings_def sampleEntry_def)
  have up: "reachable (sampleStore fiveRatings)" by (simp add: sampleStore_def)
  have score: "scoreOf (satisfactionDashboard (sampleStore fiveRatings) sampleClassifier)
                 = Some (satisfactionScore (feedbackMetrics sampleClassifier (42 / 10) fiveRatings))"
    unfolding dashboard_by_scope scope avg using up some by simp
  have nobody: "customerScope (sampleStore fiveRatings) ''u2'' = []"
    by (simp add: customerScope_def sampleStore_def fiveRatings_def sampleEntry_def writtenBy_def)
  from score_range_and_empty_scope
         [OF range, where hf = sampleClassifier and isValid = "\<lambda>k. True" and key = "''u2''"
            and s = "satisfactionScore (feedbackMetrics sampleClassifier (42 / 10) fiveRatings)"]
    score nobody range
  show ?thesis by blast
qed

text \<open>
  The claim as stated fails on the dashboard: over a store without any feedback it calls
  the scorer with the average 0 and three zero counts, and returns what the scorer
  answers, \<^verbatim>\<open>round(0 + 0.5 * 0.4, 2) * 100\<close>.
\<close>

theorem empty_dashboard_scores_counterexample:
  "dashboardScope emptyStore = []
   \<and> satisfactionDashboard emptyStore sampleClassifier
       = Metrics \<lparr>totalFeedback = 0, averageRating = 0, sentimentDistribution = initialDistribution,
                  satisfactionScore = calculateSatisfactionScore 0 initialDistribution\<rparr>"
  by (simp add: dashboard_by_scope dashboardScope_def emptyStore_def feedbackMetrics_def
        countLabels_def toFixed_def Let_def)

subsection \<open>The sentiment distribution\<close>

lemma metrics_counts:
  "totalFeedback (feedbackMetrics hf a scope) = length scope
   \<and> distributionTotal (sentimentDistribution (feedbackMetrics hf a scope)) = length (knownScope hf scope)"
  by (simp add: feedbackMetrics_def Let_def distributionTotal_countLabels knownScope_def filter_map comp_def)

lemma knownScope_all:
  "(\<And>t. knownLabel (label (analyzeSentiment hf t))) \<Longrightarrow> knownScope hf scope = scope"
  by (simp add: knownScope_def)

lemma alwaysPositive_known: "knownLabel (label (analyzeSentiment alwaysPositive t))"
  by (simp add: analyzeSentiment_def analyzeSentimentTraced_def alwaysPositive_def knownLabel_def
        neutralResult_def)

text \<open>
  Claim C3, as amended. In the metrics of each of the three routes, \<open>totalFeedback\<close>
  is the number of entries in the scope, and the positive, neutral and negative counts add
  up to the number of entries whose classification carries one of these three labels. So
  the three counts add up to \<open>totalFeedback\<close> when the classifier answers with no
  other label.
\<close>

theorem distribution_counts_known_labels:
  "(satisfactionDashboard db hf = Metrics m \<longrightarrow>
      totalFeedback m = length (dashboardScope db)
      \<and> distributionTotal (sentimentDistribution m) = length (knownScope hf (dashboardScope db)))
   \<and> (customerSatisfaction isValid db hf key = Metrics m \<longrightarrow>
      totalFeedback m = length (customerScope db key)
      \<and> distributionTotal (sentimentDistribution m) = length (knownScope hf (customerScope db key)))
   \<and> (foodItemSatisfaction isValid db hf key = Metrics m \<longrightarrow>
      totalFeedback m = length (itemScope db key)
      \<and> distributionTotal (sentimentDistribution m) = length (knownScope hf (itemScope db key)))
   \<and> ((\<forall>t. knownLabel (label (analyzeSentiment hf t)))
        \<and> (satisfactionDashboard db hf = Metrics m
            \<or> customerSatisfaction isValid db hf key = Metrics m
            \<or> foodItemSatisfaction isValid db hf key = Metrics m)
      \<longrightarrow> distributionTotal (sentimentDistribution m) = totalFeedback m)"
proof -
  have d: "totalFeedback m = length (dashboardScope db)
      \<and> distributionTotal (sentimentDistribution m) = length (knownScope hf (dashboardScope db))"
    if "satisfactionDashboard db hf = Metrics m"
    using that metrics_counts by (auto simp: dashboard_by_scope split: if_splits)
  have c: "totalFeedback m = length (customerScope db key)
      \<and> distributionTotal (sentimentDistribution m) = length (knownScope hf (customerScope db key))"
    if "customerSatisfaction isValid db hf key = Metrics m"
    using that metrics_counts by (auto simp: customer_by_scope split: if_splits)
  have i: "totalFeedback m = length (itemScope db key)
      \<and> distributionTotal (sentimentDistribution m) = length (knownScope hf (itemScope db key))"
    if "foodItemSatisfaction isValid db hf key = Metrics m"
    using that metrics_counts by (auto simp: foodItem_by_scope split: if_splits)
  have "distributionTotal (sentimentDistribution m) = totalFeedback m"
    if "\<forall>t. knownLabel (label (analyzeSentiment hf t))"
      and "satisfactionDashboard db hf = Metrics m
            \<or> customerSatisfaction isValid db hf key = Metrics m
            \<or> foodItemSatisfaction isValid db hf key = Metrics m"
    using that d c i knownScope_all [of hf] by auto
  with d c i show ?thesis by blast
qed

theorem distribution_counts_known_labels_witness:
  "satisfactionDashboard (sampleStore fiveRatings) alwaysPositive
     = Metrics (feedbackMetrics alwaysPositive (ratingAverage fiveRatings) fiveRatings)
   \<and> totalFeedback (feedbackMetrics alwaysPositive (ratingAverage fiveRatings) fiveRatings) = 5
   \<and> distributionTotal (sentimentDistribution
        (feedbackMetrics alwaysPositive (ratingAverage fiveRatings) fiveRatings)) = 5"
proof -
  have scope: "dashboardScope (sampleStore fiveRatings) = fiveRatings"
    by (simp add: dashboardScope_def sampleStore_def fiveRatings_def)
  have run: "satisfactionDashboard (sampleStore fiveRatings) alwaysPositive
     = Metrics (feedbackMetrics alwaysPositive (ratingAverage fiveRatings) fiveRatings)"
    unfolding dashboard_by_scope scope by (simp add: sampleStore_def fiveRatings_def)
  have known: "\<forall>t. knownLabel (label (analyzeSentiment alwaysPositive t))"
    using alwaysPositive_known by simp
  have len: "length fiveRatings = 5" by (simp add: fiveRatings_def)
  from distribution_counts_known_labels
         [of "sampleStore fiveRatings" alwaysPositive
             "feedbackMetrics alwaysPositive (ratingAverage fiveRatings) fiveRatings" "\<lambda>k. True" "''u1''"]
    run known scope len
  show ?thesis by simp
qed

text \<open>
  The claim as stated fails when the classifier answers with a label of its own: the
  label is counted under its own key, and the three counts no longer add up to the total.
\<close>

theorem unknown_label_counterexample:
  "satisfactionDashboard (sampleStore [sampleEntry ''u1'' 5 ''odd'' 1]) sampleClassifier
     = Metrics \<lparr>totalFeedback = 1, averageRating = 5,
                sentimentDistribution = initialDistribution(''LABEL_2'' \<mapsto> 1),
                satisfactionScore =
                  calculateSatisfactionScore 5 (initialDistribution(''LABEL_2'' \<mapsto> 1))\<rparr>
   \<and> distributionTotal (initialDistribution(''LABEL_2'' \<mapsto> 1)) = 0"
proof -
  have missing: "initialDistribution ''LABEL_2'' = None"
    by (simp add: initialDistribution_def)
  have counted: "countLabels [\<lparr>label = ''LABEL_2'', score = 9 / 10\<rparr>]
                   = initialDistribution(''LABEL_2'' \<mapsto> 1)"
    by (simp add: countLabels_def countLabel_def missing orZero_def)
  have total: "distributionTotal (initialDistribution(''LABEL_2'' \<mapsto> 1)) = 0"
    by (simp add: distributionTotal_def initialDistribution_def orZero_def)
  have scope: "dashboardScope (sampleStore [sampleEntry ''u1'' 5 ''odd'' 1]) = [sampleEntry ''u1'' 5 ''odd'' 1]"
    by (simp add: dashboardScope_def sampleStore_def)
  have avg: "ratingAverage [sampleEntry ''u1'' 5 ''odd'' 1] = 5"
    by (simp add: ratingAverage_def sampleEntry_def)
  have run: "satisfactionDashboard (sampleStore [sampleEntry ''u1'' 5 ''odd'' 1]) sampleClassifier
     = Metrics \<lparr>totalFeedback = 1, averageRating = 5,
                sentimentDistribution = initialDistribution(''LABEL_2'' \<mapsto> 1),
                satisfactionScore =
                  calculateSatisfactionScore 5 (initialDistribution(''LABEL_2'' \<mapsto> 1))\<rparr>"
    unfolding dashboard_by_scope scope avg
    by (simp add: sampleStore_def feedbackMetrics_def sampleEntry_def counted toFixed_def Let_def)
  from run total show ?thesis by blast
qed

subsection \<open>The trend buckets\<close>

lemma groupByDate_ids:
  "map bucket_id (groupByDate operator fbs) = remdups (map (\<lambda>fb. dateOperator operator (createdAt fb)) fbs)"
  by (simp add: groupByDate_def comp_def Let_def)

lemma map_sort_key_distinct:
  assumes "distinct (map f xs)"
  shows "map f (sort_key f xs) = sort (map f xs)"
proof (rule sorted_distinct_set_unique)
  show "sorted (map f (sort_key f xs))" by simp
  show "sorted (sort (map f xs))" by simp
  have "inj_on f (set xs)" and "distinct xs"
    using assms by (simp_all add: distinct_map)
  then show "distinct (map f (sort_key f xs))"
    by (simp add: distinct_map)
  show "distinct (sort (map f xs))" using assms by simp
  show "set (map f (sort_key f xs)) = set (sort (map f xs))" by simp
qed

lemma trend_keys:
  "map bucket_id (trendBuckets period fbs) = take 30 (sort (remdups (map (periodKey period) fbs)))"
proof -
  have ids: "map bucket_id (groupByDate (getDateGrouping period) fbs) = remdups (map (periodKey period) fbs)"
    unfolding groupByDate_ids by (simp add: periodKey_def [abs_def])
  then have "distinct (map bucket_id (groupByDate (getDateGrouping period) fbs))" by simp
  from map_sort_key_distinct [OF this]
  have "map bucket_id (sort_key bucket_id (groupByDate (getDateGrouping period) fbs))
          = sort (remdups (map (periodKey period) fbs))"
    by (simp only: ids)
  then show ?thesis
    unfolding trendBuckets_def take_map [symmetric] by (rule arg_cong)
qed

lemma bucket_content:
  assumes "b \<in> set (trendBuckets period fbs)"
  shows "bucketCount b = length (bucketMembers period fbs (bucket_id b))
       \<and> bucketAverage b = of_int (sum_list (map rating (bucketMembers period fbs (bucket_id b))))
                              / of_nat (length (bucketMembers period fbs (bucket_id b)))"
proof -
  have "b \<in> set (groupByDate (getDateGrouping period) fbs)"
    using in_set_takeD [OF assms [unfolded trendBuckets_def]] by simp
  then show ?thesis
    by (auto simp: groupByDate_def bucketMembers_def periodKey_def Let_def)
qed

lemma trend_by_buckets:
  "satisfactionTrend db hf sample query =
     (if reachable db
      then Trend (case query of None \<Rightarrow> ''month'' | Some p \<Rightarrow> p)
             (map (\<lambda>periodData.
                     \<lparr>bucket_id = bucket_id periodData,
                      bucketAverage = bucketAverage periodData,
                      bucketCount = bucketCount periodData,
                      bucketSentiment =
                        countLabels (map (\<lambda>fb. analyzeSentiment hf (comment fb))
                          (feedbackInPeriod sample (case query of None \<Rightarrow> ''month'' | Some p \<Rightarrow> p)
                             (concat (map feedback (foodItems db))) (bucket_id periodData)))\<rparr>)
                  (trendBuckets (case query of None \<Rightarrow> ''month'' | Some p \<Rightarrow> p)
                     (concat (map feedback (foodItems db)))))
      else TrendFailed)"
  by (simp add: satisfactionTrend_def unwindFeedback_def Let_def)

lemma day_keys:
  "map (periodKey ''day'') januaryDays
     = [1, 2, 3, 4, 5, 6, 7, 8, 9, 10, 11, 12, 13, 14, 15, 16, 17, 18, 19, 20,
        21, 22, 23, 24, 25, 26, 27, 28, 29, 30, 31]"
  by code_simp

lemma month_keys:
  "dateOperator (getDateGrouping ''month'') 1673740800000 = 1"
  "dateOperator (getDateGrouping ''month'') 1705276800000 = 1"
  "dateOperator (getDateGrouping ''month'') 1715731200000 = 5"
  "dateOperator ''$year'' 1673740800000 = 2023"
  "dateOperator ''$year'' 1705276800000 = 2024"
  by code_simp+

lemma next_period_of_key: "getNextPeriodDate 5 ''month'' = 2678400005"
  by code_simp

lemma day_buckets:
  "map bucket_id (trendBuckets ''day'' januaryDays)
     = [1, 2, 3, 4, 5, 6, 7, 8, 9, 10, 11, 12, 13, 14, 15, 16, 17, 18, 19, 20,
        21, 22, 23, 24, 25, 26, 27, 28, 29, 30]"
  unfolding trend_keys day_keys by simp

text \<open>
  Claim C4, as amended. The period is one of day, week, month and year; a missing period
  is month, and any other period is grouped like month. Each entry is keyed by the value of
  the store's date operator for the period on its timestamp (day of the year, week of the
  year, month of the year, year). The buckets returned are those of the 30 smallest keys,
  strictly ascending by key, so at most 30, and every key left out is larger than every
  key returned. Each bucket's count and average rating are taken over all the entries with
  its key.
\<close>

theorem trend_buckets_shape:
  "map bucket_id (trendBuckets period fbs) = take 30 (sort (remdups (map (periodKey period) fbs)))
   \<and> sorted_wrt (<) (map bucket_id (trendBuckets period fbs))
   \<and> length (trendBuckets period fbs) \<le> 30
   \<and> (\<forall>b \<in> set (trendBuckets period fbs).
         bucketCount b = length (bucketMembers period fbs (bucket_id b))
         \<and> bucketAverage b = of_int (sum_list (map rating (bucketMembers period fbs (bucket_id b))))
                                / of_nat (length (bucketMembers period fbs (bucket_id b))))
   \<and> (\<forall>dropped \<in> set (drop 30 (sort (remdups (map (periodKey period) fbs)))).
         \<forall>b \<in> set (trendBuckets period fbs). bucket_id b < dropped)
   \<and> periodKey ''day'' fb = dateOperator ''$dayOfYear'' (createdAt fb)
   \<and> periodKey ''week'' fb = dateOperator ''$week'' (createdAt fb)
   \<and> periodKey ''month'' fb = dateOperator ''$month'' (createdAt fb)
   \<and> periodKey ''year'' fb = dateOperator ''$year'' (createdAt fb)
   \<and> (period \<notin> set [''day'', ''week'', ''month'', ''year''] \<longrightarrow> periodKey period fb = periodKey ''month'' fb)
   \<and> satisfactionTrend db hf sample None = satisfactionTrend db hf sample (Some ''month'')
   \<and> (reachable db \<longrightarrow>
        (case satisfactionTrend db hf sample (Some period) of
           Trend p points \<Rightarrow>
             p = period
             \<and> map (\<lambda>pt. (bucket_id pt, bucketAverage pt, bucketCount pt)) points
                 = map (\<lambda>b. (bucket_id b, bucketAverage b, bucketCount b))
                     (trendBuckets period (concat (map feedback (foodItems db))))
         | TrendFailed \<Rightarrow> False))"
proof -
  define keys where "keys = sort (remdups (map (periodKey period) fbs))"
  have strict: "sorted_wrt (<) keys"
    by (simp add: keys_def strict_sorted_iff)
  have ids: "map bucket_id (trendBuckets period fbs) = take 30 keys"
    by (simp add: trend_keys keys_def)
  have asc: "sorted_wrt (<) (map bucket_id (trendBuckets period fbs))"
    unfolding ids using strict by simp
  have len: "length (trendBuckets period fbs) \<le> 30"
    by (simp add: trendBuckets_def)
  have "sorted_wrt (<) (take 30 keys @ drop 30 keys)" using strict by simp
  then have split: "\<forall>x \<in> set (take 30 keys). \<forall>y \<in> set (drop 30 keys). x < y"
    unfolding sorted_wrt_append by blast
  have kept: "\<forall>dropped \<in> set (drop 30 keys). \<forall>b \<in> set (trendBuckets period fbs). bucket_id b < dropped"
  proof (intro ballI)
    fix dropped b
    assume d: "dropped \<in> set (drop 30 keys)" and b: "b \<in> set (trendBuckets period fbs)"
    from b have "bucket_id b \<in> set (map bucket_id (trendBuckets period fbs))" by simp
    then have "bucket_id b \<in> set (take 30 keys)" by (simp only: ids)
    with split d show "bucket_id b < dropped" by blast
  qed
  have content: "\<forall>b \<in> set (trendBuckets period fbs).
         bucketCount b = length (bucketMembers period fbs (bucket_id b))
         \<and> bucketAverage b = of_int (sum_list (map rating (bucketMembers period fbs (bucket_id b))))
                                / of_nat (length (bucketMembers period fbs (bucket_id b)))"
    using bucket_content by blast
  have ops: "periodKey ''day'' fb = dateOperator ''$dayOfYear'' (createdAt fb)
   \<and> periodKey ''week'' fb = dateOperator ''$week'' (createdAt fb)
   \<and> periodKey ''month'' fb = dateOperator ''$month'' (createdAt fb)
   \<and> periodKey ''year'' fb = dateOperator ''$year'' (createdAt fb)
   \<and> (period \<notin> set [''day'', ''week'', ''month'', ''year''] \<longrightarrow> periodKey period fb = periodKey ''month'' fb)"
    by (simp add: periodKey_def getDateGrouping_def)
  have dflt: "satisfactionTrend db hf sample None = satisfactionTrend db hf sample (Some ''month'')"
    by (simp add: trend_by_buckets)
  have resp: "reachable db \<longrightarrow>
        (case satisfactionTrend db hf sample (Some period) of
           Trend p points \<Rightarrow>
             p = period
             \<and> map (\<lambda>pt. (bucket_id pt, bucketAverage pt, bucketCount pt)) points
                 = map (\<lambda>b. (bucket_id b, bucketAverage b, bucketCount b))
                     (trendBuckets period (concat (map feedback (foodItems db))))
         | TrendFailed \<Rightarrow> False)"
    by (simp add: trend_by_buckets comp_def)
  from ids asc len content kept ops dflt resp show ?thesis
    unfolding keys_def by blast
qed

theorem trend_buckets_shape_witness:
  "map bucket_id (trendBuckets ''day'' januaryDays)
     = [1, 2, 3, 4, 5, 6, 7, 8, 9, 10, 11, 12, 13, 14, 15, 16, 17, 18, 19, 20,
        21, 22, 23, 24, 25, 26, 27, 28, 29, 30]
   \<and> sorted_wrt (<) (map bucket_id (trendBuckets ''day'' januaryDays))
   \<and> length (trendBuckets ''day'' januaryDays) \<le> 30
   \<and> ''hour'' \<notin> set [''day'', ''week'', ''month'', ''year'']
   \<and> periodKey ''hour'' (sampleEntry ''u1'' 5 ''good'' 0) = periodKey ''month'' (sampleEntry ''u1'' 5 ''good'' 0)"
proof -
  note shape = trend_buckets_shape [where period = "''day''" and fbs = januaryDays
      and fb = "sampleEntry ''u1'' 5 ''good'' 0" and db = "sampleStore januaryDays"
      and hf = sampleClassifier and sample = take]
  note other = trend_buckets_shape [where period = "''hour''" and fbs = januaryDays
      and fb = "sampleEntry ''u1'' 5 ''good'' 0" and db = "sampleStore januaryDays"
      and hf = sampleClassifier and sample = take]
  have unknown: "''hour'' \<notin> set [''day'', ''week'', ''month'', ''year'']" by simp
  from other unknown
  have dflt: "periodKey ''hour'' (sampleEntry ''u1'' 5 ''good'' 0) = periodKey ''month'' (sampleEntry ''u1'' 5 ''good'' 0)"
    by blast
  from shape have "map bucket_id (trendBuckets ''day'' januaryDays)
        = take 30 (sort (remdups (map (periodKey ''day'') januaryDays)))"
    and "sorted_wrt (<) (map bucket_id (trendBuckets ''day'' januaryDays))"
    and "length (trendBuckets ''day'' januaryDays) \<le> 30"
    by blast+
  with dflt show ?thesis unfolding day_keys by simp
qed

text \<open>
  The claim as stated fails twice. Of 31 daily buckets the trend returns the 30 earliest
  and leaves out the latest, so it is not the oldest that are dropped. And the key is not
  the timestamp truncated to the period: two entries a year apart share the month bucket 1.
\<close>

theorem trend_keeps_oldest_counterexample:
  "map (periodKey ''day'') januaryDays
     = [1, 2, 3, 4, 5, 6, 7, 8, 9, 10, 11, 12, 13, 14, 15, 16, 17, 18, 19, 20,
        21, 22, 23, 24, 25, 26, 27, 28, 29, 30, 31]
   \<and> map bucket_id (trendBuckets ''day'' januaryDays)
     = [1, 2, 3, 4, 5, 6, 7, 8, 9, 10, 11, 12, 13, 14, 15, 16, 17, 18, 19, 20,
        21, 22, 23, 24, 25, 26, 27, 28, 29, 30]
   \<and> map (\<lambda>fb. dateOperator ''$year'' (createdAt fb)) twoJanuaries = [2023, 2024]
   \<and> trendBuckets ''month'' twoJanuaries = [\<lparr>bucket_id = 1, bucketAverage = 4, bucketCount = 2\<rparr>]"
proof -
  have years: "map (\<lambda>fb. dateOperator ''$year'' (createdAt fb)) twoJanuaries = [2023, 2024]"
    by (simp add: twoJanuaries_def sampleEntry_def month_keys)
  have merged: "trendBuckets ''month'' twoJanuaries = [\<lparr>bucket_id = 1, bucketAverage = 4, bucketCount = 2\<rparr>]"
    by (simp add: trendBuckets_def groupByDate_def twoJanuaries_def sampleEntry_def month_keys)
  from day_keys day_buckets years merged show ?thesis by blast
qed

subsection \<open>The window of the sentiment sample\<close>

text \<open>
  Claim C5 at one entry of 15 May 2024 and the period month. The entry is the whole
  population of bucket 5 and sets its average. The window of the sentiment sample is built
  from the key as a timestamp: it runs from 5 milliseconds after the epoch to one month
  later, holds no entry, and the bucket's sentiment counts stay at zero.
\<close>

theorem sample_window_misses_bucket:
  "bucketMembers ''month'' oneMay 5 = oneMay
   \<and> getNextPeriodDate 5 ''month'' = 2678400005
   \<and> feedbackInPeriod take ''month'' oneMay 5 = []
   \<and> satisfactionTrend (sampleStore oneMay) sampleClassifier take (Some ''month'')
       = Trend ''month'' [\<lparr>bucket_id = 5, bucketAverage = 5, bucketCount = 1,
                             bucketSentiment = initialDistribution\<rparr>]"
proof -
  have members: "bucketMembers ''month'' oneMay 5 = oneMay"
    by (simp add: bucketMembers_def periodKey_def oneMay_def sampleEntry_def month_keys)
  have window: "feedbackInPeriod take ''month'' oneMay 5 = []"
    by (simp add: feedbackInPeriod_def next_period_of_key oneMay_def sampleEntry_def)
  have buckets: "trendBuckets ''month'' oneMay = [\<lparr>bucket_id = 5, bucketAverage = 5, bucketCount = 1\<rparr>]"
    by (simp add: trendBuckets_def groupByDate_def oneMay_def sampleEntry_def month_keys)
  have scope: "concat (map feedback (foodItems (sampleStore oneMay))) = oneMay"
    by (simp add: sampleStore_def)
  have up: "reachable (sampleStore oneMay)" by (simp add: sampleStore_def)
  have run: "satisfactionTrend (sampleStore oneMay) sampleClassifier take (Some ''month'')
       = Trend ''month'' [\<lparr>bucket_id = 5, bucketAverage = 5, bucketCount = 1,
                             bucketSentiment = initialDistribution\<rparr>]"
    unfolding trend_by_buckets scope using up
    by (simp add: buckets window countLabels_def)
  from members next_period_of_key window run show ?thesis by blast
qed

subsection \<open>The recommendation by history\<close>

lemma foldl_uf_rating_sum:
  "foldl (\<lambda>sum fb. sum + uf_rating fb) a fbs = a + sum_list (map uf_rating fbs)"
  by (induction fbs arbitrary: a) auto

lemma body_core:
  "(let allUserFeedback = H in if length allUserFeedback = 0 then A else B allUserFeedback)
   = (if H = [] then A else B H)"
  by simp

lemma body_by_history:
  "recommendationBody caps db key orderedItems =
     (if \<not> reachable db then Inl StoreFailure
      else if userHistory db key = []
      then Inr \<lparr>recommendation = ''No previous feedback found from this customer. Prepare using standard recipes and presentation.'',
                priority = ''normal'', sentimentTag = ''neutral'', analyzedAt = None,
                historicalData = None, feedbackSamples = None, feedbackHistory = Some []\<rparr>
      else
        (let history = userHistory db key;
             classified = map (classifyFeedback (textClassification caps)) history
         in Inr \<lparr>recommendation = generateGuidance caps (summarizeFeedback caps classified) orderedItems,
                 priority = specPriority (historyAverage history)
                              (negativeCountOf (textClassification caps) history) (length history),
                 sentimentTag = specSentiment (historyAverage history),
                 analyzedAt = Some (clock caps),
                 historicalData = Some
                   \<lparr>hist_averageRating = toFixed 1 (historyAverage history),
                    hist_totalFeedback = length history,
                    lastFeedbackDate = toLocaleDateString caps (uf_createdAt (last history)),
                    negativeFeedbackCount = negativeCountOf (textClassification caps) history,
                    positiveFeedbackCount =
                      length (filter (\<lambda>fb. sentiment fb = ''positive'') classified)\<rparr>,
                 feedbackSamples = Some (map (toSample caps) (take 3 classified)),
                 feedbackHistory = None\<rparr>))"
proof (cases "reachable db")
  case False
  then show ?thesis by (simp add: recommendationBody_def findFoodItems_def)
next
  case True
  define H where "H = userHistory db key"
  have H_alt: "collectUserFeedback key
                 (filter (\<lambda>item. list_ex (writtenBy key) (feedback item)) (foodItems db)) = H"
    by (simp add: H_def userHistory_def)
  show ?thesis
    unfolding H_def [symmetric] recommendationBody_def findFoodItems_def
    using True
    by (simp add: H_alt Let_def foldl_uf_rating_sum historyAverage_def specPriority_def
          specSentiment_def negativeCountOf_def filter_map comp_def mult.commute)
qed

lemma generate_by_body:
  "generateChefRecommendation caps db key orderedItems =
     (case recommendationBody caps db key orderedItems of
        Inl e \<Rightarrow> \<lparr>recommendation = ''Standard preparation required. Check customer'' @ [CHR 0x27]
                                    @ ''s past ratings for potential preferences.'',
                   priority = ''normal'', sentimentTag = ''neutral'', analyzedAt = Some (clock caps),
                   historicalData = None, feedbackSamples = None, feedbackHistory = Some []\<rparr>
      | Inr result \<Rightarrow> result)"
  by (simp add: generateChefRecommendation_def)

lemma recommendation_fields:
  assumes "reachable db" and "userHistory db key \<noteq> []"
  shows "priority (generateChefRecommendation caps db key orderedItems)
           = specPriority (historyAverage (userHistory db key))
               (negativeCountOf (textClassification caps) (userHistory db key))
               (length (userHistory db key))"
    and "sentimentTag (generateChefRecommendation caps db key orderedItems)
           = specSentiment (historyAverage (userHistory db key))"
    and "feedbackSamples (generateChefRecommendation caps db key orderedItems)
           = Some (map (toSample caps)
                     (take 3 (map (classifyFeedback (textClassification caps)) (userHistory db key))))"
  using assms by (simp_all add: generate_by_body body_by_history Let_def)

lemma sample_history:
  "userHistory (sampleStore fourComments) ''u1''
     = [\<lparr>uf_foodItem = ''Soup'', uf_comment = ''good'', uf_rating = 5, uf_createdAt = 1, uf_foodItemId = ''i1''\<rparr>,
        \<lparr>uf_foodItem = ''Soup'', uf_comment = ''fine'', uf_rating = 4, uf_createdAt = 2, uf_foodItemId = ''i1''\<rparr>,
        \<lparr>uf_foodItem = ''Soup'', uf_comment = ''bad'', uf_rating = 2, uf_createdAt = 3, uf_foodItemId = ''i1''\<rparr>,
        \<lparr>uf_foodItem = ''Soup'', uf_comment = ''tasty'', uf_rating = 5, uf_createdAt = 4, uf_foodItemId = ''i1''\<rparr>]"
  by (simp add: userHistory_def collectUserFeedback_def sampleStore_def fourComments_def
        sampleEntry_def writtenBy_def)

lemma sample_classified [simp]:
  "sentiment (classifyFeedback sampleClassifier
      \<lparr>uf_foodItem = i, uf_comment = ''good'', uf_rating = r, uf_createdAt = t, uf_foodItemId = k\<rparr>) = ''positive''"
  "sentiment (classifyFeedback sampleClassifier
      \<lparr>uf_foodItem = i, uf_comment = ''fine'', uf_rating = r, uf_createdAt = t, uf_foodItemId = k\<rparr>) = ''positive''"
  "sentiment (classifyFeedback sampleClassifier
      \<lparr>uf_foodItem = i, uf_comment = ''bad'', uf_rating = r, uf_createdAt = t, uf_foodItemId = k\<rparr>) = ''negative''"
  "sentiment (classifyFeedback sampleClassifier
      \<lparr>uf_foodItem = i, uf_comment = ''tasty'', uf_rating = r, uf_createdAt = t, uf_foodItemId = k\<rparr>) = ''positive''"
  by (simp_all add: classifyFeedback_def sampleClassifier_def withSentiment_def)

subsection \<open>Isolation of classifier failures\<close>




subsection \<open>Priority and overall sentiment\<close>

text \<open>
  Claim C7. For a customer with feedback, the priority of the recommendation is a function
  of the average rating, the negative count and the number of entries: high if and only if
  the average is below 2.5 or the negative count exceeds half the number of entries, low if
  and only if the average exceeds 4.2 and the negative count is zero, normal otherwise. The
  overall sentiment is positive if and only if the average is at least 3, neutral if and
  only if it is at least 2 and below 3, negative otherwise. The specification's three
  examples are evaluated as well.
\<close>

theorem priority_and_sentiment_of_history:
  assumes "reachable db" and "userHistory db key \<noteq> []"
  shows "(let r = generateChefRecommendation caps db key orderedItems;
             avg = historyAverage (userHistory db key);
             negativeCount = negativeCountOf (textClassification caps) (userHistory db key);
             totalCount = length (userHistory db key)
         in totalCount > 0
            \<and> priority r = specPriority avg negativeCount totalCount
            \<and> (priority r = ''high'' \<longleftrightarrow> avg < 25 / 10 \<or> real negativeCount > 5 / 10 * real totalCount)
            \<and> (priority r = ''low'' \<longleftrightarrow> avg > 42 / 10 \<and> negativeCount = 0)
            \<and> (priority r = ''normal'' \<longleftrightarrow>
                  \<not> (avg < 25 / 10 \<or> real negativeCount > 5 / 10 * real totalCount)
                  \<and> \<not> (avg > 42 / 10 \<and> negativeCount = 0))
            \<and> (sentimentTag r = ''positive'' \<longleftrightarrow> avg \<ge> 3)
            \<and> (sentimentTag r = ''neutral'' \<longleftrightarrow> 2 \<le> avg \<and> avg < 3)
            \<and> (sentimentTag r = ''negative'' \<longleftrightarrow> avg < 2))
         \<and> specPriority 2 3 4 = ''high''
         \<and> specPriority (45 / 10) 0 5 = ''low''
         \<and> specPriority (35 / 10) 1 5 = ''normal''"
proof -
  have pos: "length (userHistory db key) > 0" using assms(2) by simp
  have examples: "specPriority 2 3 4 = ''high'' \<and> specPriority (45 / 10) 0 5 = ''low''
      \<and> specPriority (35 / 10) 1 5 = ''normal''"
    by (simp add: specPriority_def)
  show ?thesis
    unfolding Let_def recommendation_fields(1,2) [OF assms]
    using pos examples by (auto simp: specPriority_def specSentiment_def)
qed

theorem priority_and_sentiment_of_history_witness:
  "reachable (sampleStore fourComments)
   \<and> userHistory (sampleStore fourComments) ''u1'' \<noteq> []
   \<and> historyAverage (userHistory (sampleStore fourComments) ''u1'') = 4
   \<and> negativeCountOf sampleClassifier (userHistory (sampleStore fourComments) ''u1'') = 1
   \<and> priority (generateChefRecommendation sampleCapabilities (sampleStore fourComments) ''u1'' []) = ''normal''
   \<and> sentimentTag (generateChefRecommendation sampleCapabilities (sampleStore fourComments) ''u1'' []) = ''positive''"
proof -
  have up: "reachable (sampleStore fourComments)" by (simp add: sampleStore_def)
  have some: "userHistory (sampleStore fourComments) ''u1'' \<noteq> []" by (simp add: sample_history)
  have avg: "historyAverage (userHistory (sampleStore fourComments) ''u1'') = 4"
    by (simp add: sample_history historyAverage_def)
  have neg: "negativeCountOf (textClassification sampleCapabilities)
               (userHistory (sampleStore fourComments) ''u1'') = 1"
    by (simp add: sample_history negativeCountOf_def sampleCapabilities_def)
  have len: "length (userHistory (sampleStore fourComments) ''u1'') = 4"
    by (simp add: sample_history)
  have cls: "textClassification sampleCapabilities = sampleClassifier"
    by (simp add: sampleCapabilities_def)
  from priority_and_sentiment_of_history [OF up some, of sampleCapabilities "[]"]
  have "priority (generateChefRecommendation sampleCapabilities (sampleStore fourComments) ''u1'' [])
          = specPriority 4 1 4
      \<and> (sentimentTag (generateChefRecommendation sampleCapabilities (sampleStore fourComments) ''u1'' [])
            = ''positive'') = ((3 :: real) \<le> 4)"
    unfolding Let_def avg neg len by blast
  then show ?thesis
    using up some avg neg by (simp add: specPriority_def cls)
qed

subsection \<open>Feedback samples\<close>

text \<open>
  Claim C8, as amended. For a customer with feedback, the recommendation attaches at most
  three samples, and they are the first three entries of the history in the order it was
  gathered, each with the food item's name, the comment, the rating, the sentiment label
  and the date.
\<close>

theorem samples_are_first_three:
  assumes "reachable db" and "userHistory db key \<noteq> []"
  shows "(let history = userHistory db key;
             hf = textClassification caps
         in feedbackSamples (generateChefRecommendation caps db key orderedItems)
              = Some (map (\<lambda>fb. \<lparr>sample_foodItem = uf_foodItem fb, sample_comment = uf_comment fb,
                                  sample_rating = uf_rating fb,
                                  sample_sentiment = sentiment (classifyFeedback hf fb),
                                  sample_date = toLocaleDateString caps (uf_createdAt fb)\<rparr>)
                          (take 3 history))
            \<and> length (take 3 history) = min 3 (length history))"
proof -
  have fields: "toSample caps (classifyFeedback hf fb)
      = \<lparr>sample_foodItem = uf_foodItem fb, sample_comment = uf_comment fb,
         sample_rating = uf_rating fb,
         sample_sentiment = sentiment (classifyFeedback hf fb),
         sample_date = toLocaleDateString caps (uf_createdAt fb)\<rparr>" for hf fb
    by (simp add: toSample_def classifyFeedback_def withSentiment_def split: sum.splits list.splits)
  show ?thesis
    unfolding Let_def recommendation_fields(3) [OF assms]
    by (simp add: take_map fields comp_def min.commute)
qed

theorem samples_are_first_three_witness:
  "reachable (sampleStore fourComments)
   \<and> userHistory (sampleStore fourComments) ''u1'' \<noteq> []
   \<and> feedbackSamples (generateChefRecommendation sampleCapabilities (sampleStore fourComments) ''u1'' [])
       = Some [\<lparr>sample_foodItem = ''Soup'', sample_comment = ''good'', sample_rating = 5,
                 sample_sentiment = ''positive'', sample_date = ''a day''\<rparr>,
               \<lparr>sample_foodItem = ''Soup'', sample_comment = ''fine'', sample_rating = 4,
                 sample_sentiment = ''positive'', sample_date = ''a day''\<rparr>,
               \<lparr>sample_foodItem = ''Soup'', sample_comment = ''bad'', sample_rating = 2,
                 sample_sentiment = ''negative'', sample_date = ''a day''\<rparr>]"
proof -
  have up: "reachable (sampleStore fourComments)" by (simp add: sampleStore_def)
  have some: "userHistory (sampleStore fourComments) ''u1'' \<noteq> []" by (simp add: sample_history)
  from samples_are_first_three [OF up some, of sampleCapabilities "[]"] up some
  show ?thesis
    by (simp add: Let_def sample_history sampleCapabilities_def)
qed

text \<open>
  The claim as stated fails on a history of four entries: the samples are the three
  oldest, and the most recent entry is not among them.
\<close>

theorem samples_not_most_recent_counterexample:
  "map uf_comment (userHistory (sampleStore fourComments) ''u1'') = [''good'', ''fine'', ''bad'', ''tasty'']
   \<and> map uf_createdAt (userHistory (sampleStore fourComments) ''u1'') = [1, 2, 3, 4]
   \<and> feedbackSamples (generateChefRecommendation sampleCapabilities (sampleStore fourComments) ''u1'' [])
       = Some [\<lparr>sample_foodItem = ''Soup'', sample_comment = ''good'', sample_rating = 5,
                 sample_sentiment = ''positive'', sample_date = ''a day''\<rparr>,
               \<lparr>sample_foodItem = ''Soup'', sample_comment = ''fine'', sample_rating = 4,
                 sample_sentiment = ''positive'', sample_date = ''a day''\<rparr>,
               \<lparr>sample_foodItem = ''Soup'', sample_comment = ''bad'', sample_rating = 2,
                 sample_sentiment = ''negative'', sample_date = ''a day''\<rparr>]"
proof -
  have up: "reachable (sampleStore fourComments)" by (simp add: sampleStore_def)
  have some: "userHistory (sampleStore fourComments) ''u1'' \<noteq> []" by (simp add: sample_history)
  show ?thesis
    by (simp add: recommendation_fields(3) [OF up some] sample_history sampleCapabilities_def
          toSample_def classifyFeedback_def sampleClassifier_def withSentiment_def)
qed

subsection \<open>Failures that reach the caller\<close>

text \<open>
  Claim C9, as amended. Whatever the classifier does, the customer profile answers 400
  exactly when the identifier is malformed, 500 exactly when the identifier is well formed
  and the store is unreachable, and 200 otherwise. The body of
  \<^verbatim>\<open>generateChefRecommendation\<close> throws exactly when the store is unreachable,
  whatever the capabilities do, and the function itself never fails: its outer
  \<^verbatim>\<open>catch\<close> answers a store failure with the default recommendation (priority
  normal, sentiment neutral).
\<close>

theorem failures_that_propagate:
  "statusCode (customerSatisfaction isValid db hf key)
     = (if \<not> isValid key then 400 else if \<not> reachable db then 500 else 200)
   \<and> isl (recommendationBody caps db key orderedItems) = (\<not> reachable db)
   \<and> (case recommendationBody caps db key orderedItems of
         Inl e \<Rightarrow> priority (generateChefRecommendation caps db key orderedItems) = ''normal''
                  \<and> sentimentTag (generateChefRecommendation caps db key orderedItems) = ''neutral''
                  \<and> feedbackHistory (generateChefRecommendation caps db key orderedItems) = Some []
       | Inr r \<Rightarrow> generateChefRecommendation caps db key orderedItems = r)"
proof -
  have "statusCode (customerSatisfaction isValid db hf key)
     = (if \<not> isValid key then 400 else if \<not> reachable db then 500 else 200)"
    by (simp add: customer_by_scope)
  moreover have "isl (recommendationBody caps db key orderedItems) = (\<not> reachable db)"
    by (simp add: body_by_history Let_def)
  moreover have "(case recommendationBody caps db key orderedItems of
         Inl e \<Rightarrow> priority (generateChefRecommendation caps db key orderedItems) = ''normal''
                  \<and> sentimentTag (generateChefRecommendation caps db key orderedItems) = ''neutral''
                  \<and> feedbackHistory (generateChefRecommendation caps db key orderedItems) = Some []
       | Inr r \<Rightarrow> generateChefRecommendation caps db key orderedItems = r)"
    by (simp add: generate_by_body split: sum.splits)
  ultimately show ?thesis by blast
qed

theorem failures_that_propagate_witness:
  "statusCode (customerSatisfaction (\<lambda>k. length k = 24) (sampleStore fourComments)
       sampleClassifier ''0123456789abcdef01234567'') = 200
   \<and> statusCode (customerSatisfaction (\<lambda>k. length k = 24) (sampleStore fourComments)
       sampleClassifier ''u1'') = 400
   \<and> statusCode (customerSatisfaction (\<lambda>k. length k = 24) ((sampleStore fourComments)\<lparr>reachable := False\<rparr>)
       sampleClassifier ''0123456789abcdef01234567'') = 500
   \<and> isl (recommendationBody sampleCapabilities ((sampleStore fourComments)\<lparr>reachable := False\<rparr>) ''u1'' [])
   \<and> priority (generateChefRecommendation sampleCapabilities
                  ((sampleStore fourComments)\<lparr>reachable := False\<rparr>) ''u1'' []) = ''normal''"
proof -
  have up: "reachable (sampleStore fourComments)" by (simp add: sampleStore_def)
  note ok = failures_that_propagate [where isValid = "\<lambda>k. length k = 24"
              and db = "sampleStore fourComments" and hf = sampleClassifier
              and key = "''0123456789abcdef01234567''" and caps = sampleCapabilities
              and orderedItems = "[]"]
  note bad = failures_that_propagate [where isValid = "\<lambda>k. length k = 24"
              and db = "sampleStore fourComments" and hf = sampleClassifier
              and key = "''u1''" and caps = sampleCapabilities and orderedItems = "[]"]
  note down = failures_that_propagate [where isValid = "\<lambda>k. length k = 24"
              and db = "(sampleStore fourComments)\<lparr>reachable := False\<rparr>" and hf = sampleClassifier
              and key = "''0123456789abcdef01234567''" and caps = sampleCapabilities
              and orderedItems = "[]"]
  note gen = failures_that_propagate [where isValid = "\<lambda>k. length k = 24"
              and db = "(sampleStore fourComments)\<lparr>reachable := False\<rparr>" and hf = sampleClassifier
              and key = "''u1''" and caps = sampleCapabilities and orderedItems = "[]"]
  from ok bad down gen up show ?thesis
    by (auto split: sum.splits)
qed

text \<open>
  The claim as stated fails on the recommendation: with the store unreachable the body
  throws, and the function still returns a well-formed object.
\<close>

theorem store_failure_swallowed_counterexample:
  "recommendationBody sampleCapabilities ((sampleStore fourComments)\<lparr>reachable := False\<rparr>) ''u1'' []
     = Inl StoreFailure
   \<and> generateChefRecommendation sampleCapabilities ((sampleStore fourComments)\<lparr>reachable := False\<rparr>) ''u1'' []
     = \<lparr>recommendation = ''Standard preparation required. Check customer'' @ [CHR 0x27]
                           @ ''s past ratings for potential preferences.'',
        priority = ''normal'', sentimentTag = ''neutral'', analyzedAt = Some 0,
        historicalData = None, feedbackSamples = None, feedbackHistory = Some []\<rparr>"
  by (simp add: generate_by_body body_by_history sampleCapabilities_def)

subsection \<open>Order status\<close>

lemma updateFirst_others:
  "filter (\<lambda>x. order_id x \<noteq> key) (updateFirst key (\<lambda>x. x\<lparr>status := s, updatedAt := now\<rparr>) xs)
     = filter (\<lambda>x. order_id x \<noteq> key) xs"
  by (induction xs) auto

lemma updateFirst_length: "length (updateFirst key f xs) = length xs"
  by (induction xs) auto

text \<open>
  Claim C10, as amended. A requested status outside the five valid ones, or none at all,
  is answered with 400 and the store is unchanged. A valid status is answered with 500 and
  an unchanged store when the store call throws, with 404 and an unchanged store when the
  store answers and has no order with the id, and otherwise with 200 and the order as
  updated: the first order with the id, with only its status and \<open>updatedAt\<close> set,
  while every other order and the food items stay as they were.
\<close>

theorem order_status_update:
  "(requested \<notin> Some ` set validStatuses \<longrightarrow>
      updateOrderStatus db key requested now = (InvalidStatus, db))
   \<and> (requested = Some s \<and> s \<in> set validStatuses \<and> \<not> reachable db \<longrightarrow>
      updateOrderStatus db key requested now = (UpdateFailed, db))
   \<and> (requested = Some s \<and> s \<in> set validStatuses \<and> reachable db
        \<and> find (\<lambda>x. order_id x = key) (orders db) = None \<longrightarrow>
      updateOrderStatus db key requested now = (OrderNotFound, db))
   \<and> (requested = Some s \<and> s \<in> set validStatuses \<and> reachable db
        \<and> find (\<lambda>x. order_id x = key) (orders db) = Some found \<longrightarrow>
      fst (updateOrderStatus db key requested now) = Updated (found\<lparr>status := s, updatedAt := now\<rparr>)
      \<and> foodItems (snd (updateOrderStatus db key requested now)) = foodItems db
      \<and> length (orders (snd (updateOrderStatus db key requested now))) = length (orders db)
      \<and> filter (\<lambda>x. order_id x \<noteq> key) (orders (snd (updateOrderStatus db key requested now)))
          = filter (\<lambda>x. order_id x \<noteq> key) (orders db)
      \<and> find (\<lambda>x. order_id x = key) (orders (snd (updateOrderStatus db key requested now)))
          = Some (found\<lparr>status := s, updatedAt := now\<rparr>))
   \<and> statusResponseCode InvalidStatus = 400 \<and> statusResponseCode UpdateFailed = 500
   \<and> statusResponseCode OrderNotFound = 404 \<and> statusResponseCode (Updated found) = 200"
proof -
  have invalid: "updateOrderStatus db key requested now = (InvalidStatus, db)"
    if "requested \<notin> Some ` set validStatuses"
    using that by (cases requested) (auto simp: updateOrderStatus_def)
  have down: "updateOrderStatus db key requested now = (UpdateFailed, db)"
    if "requested = Some s" "s \<in> set validStatuses" "\<not> reachable db"
    using that by (simp add: updateOrderStatus_def findByIdAndUpdate_def)
  have missing: "updateOrderStatus db key requested now = (OrderNotFound, db)"
    if "requested = Some s" "s \<in> set validStatuses" "reachable db"
       "find (\<lambda>x. order_id x = key) (orders db) = None"
    using that by (simp add: updateOrderStatus_def findByIdAndUpdate_def)
  have found_first: "find (\<lambda>x. order_id x = key) (updateFirst key f xs) = Some (f y)"
    if "find (\<lambda>x. order_id x = key) xs = Some y" "\<And>x. order_id (f x) = order_id x" for f xs y
    using that by (induction xs) (auto split: if_splits)
  have updated: "updateOrderStatus db key requested now
        = (Updated (found\<lparr>status := s, updatedAt := now\<rparr>),
           db\<lparr>orders := updateFirst key (\<lambda>x. x\<lparr>status := s, updatedAt := now\<rparr>) (orders db)\<rparr>)"
    if "requested = Some s" "s \<in> set validStatuses" "reachable db"
       "find (\<lambda>x. order_id x = key) (orders db) = Some found"
    using that by (simp add: updateOrderStatus_def findByIdAndUpdate_def)
  have rest: "fst (updateOrderStatus db key requested now) = Updated (found\<lparr>status := s, updatedAt := now\<rparr>)
      \<and> foodItems (snd (updateOrderStatus db key requested now)) = foodItems db
      \<and> length (orders (snd (updateOrderStatus db key requested now))) = length (orders db)
      \<and> filter (\<lambda>x. order_id x \<noteq> key) (orders (snd (updateOrderStatus db key requested now)))
          = filter (\<lambda>x. order_id x \<noteq> key) (orders db)
      \<and> find (\<lambda>x. order_id x = key) (orders (snd (updateOrderStatus db key requested now)))
          = Some (found\<lparr>status := s, updatedAt := now\<rparr>)"
    if h: "requested = Some s" "s \<in> set validStatuses" "reachable db"
       "find (\<lambda>x. order_id x = key) (orders db) = Some found"
    unfolding updated [OF h]
    using found_first [OF h(4), of "\<lambda>x. x\<lparr>status := s, updatedAt := now\<rparr>"]
    by (simp add: updateFirst_others updateFirst_length)
  from invalid down missing rest show ?thesis by simp
qed

theorem order_status_update_witness:
  "updateOrderStatus (orderStore True) ''o1'' (Some ''shipped'') 200 = (InvalidStatus, orderStore True)
   \<and> updateOrderStatus (orderStore True) ''o1'' None 200 = (InvalidStatus, orderStore True)
   \<and> updateOrderStatus (orderStore True) ''o9'' (Some ''ready'') 200 = (OrderNotFound, orderStore True)
   \<and> fst (updateOrderStatus (orderStore True) ''o1'' (Some ''ready'') 200)
       = Updated ((sampleOrder ''o1'' ''pending'')\<lparr>status := ''ready'', updatedAt := 200\<rparr>)
   \<and> filter (\<lambda>x. order_id x \<noteq> ''o1'') (orders (snd (updateOrderStatus (orderStore True) ''o1'' (Some ''ready'') 200)))
       = [sampleOrder ''o2'' ''ready'']"
proof -
  have valid: "''ready'' \<in> set validStatuses" and invalid: "''shipped'' \<notin> set validStatuses"
    by (simp_all add: validStatuses_def)
  have up: "reachable (orderStore True)" by (simp add: orderStore_def)
  have none: "find (\<lambda>x. order_id x = ''o9'') (orders (orderStore True)) = None"
    by (simp add: orderStore_def sampleOrder_def)
  have some: "find (\<lambda>x. order_id x = ''o1'') (orders (orderStore True)) = Some (sampleOrder ''o1'' ''pending'')"
    by (simp add: orderStore_def sampleOrder_def)
  have others: "filter (\<lambda>x. order_id x \<noteq> ''o1'') (orders (orderStore True)) = [sampleOrder ''o2'' ''ready'']"
    by (simp add: orderStore_def sampleOrder_def)
  note a = order_status_update [where db = "orderStore True" and key = "''o1''"
             and requested = "Some ''shipped''" and now = 200 and s = "''shipped''"
             and found = "sampleOrder ''o1'' ''pending''"]
  note b = order_status_update [where db = "orderStore True" and key = "''o1''"
             and requested = None and now = 200 and s = "''shipped''"
             and found = "sampleOrder ''o1'' ''pending''"]
  note c = order_status_update [where db = "orderStore True" and key = "''o9''"
             and requested = "Some ''ready''" and now = 200 and s = "''ready''"
             and found = "sampleOrder ''o1'' ''pending''"]
  note d = order_status_update [where db = "orderStore True" and key = "''o1''"
             and requested = "Some ''ready''" and now = 200 and s = "''ready''"
             and found = "sampleOrder ''o1'' ''pending''"]
  have first: "updateOrderStatus (orderStore True) ''o1'' (Some ''shipped'') 200 = (InvalidStatus, orderStore True)"
    using a invalid by auto
  have second: "updateOrderStatus (orderStore True) ''o1'' None 200 = (InvalidStatus, orderStore True)"
    using b by auto
  have third: "updateOrderStatus (orderStore True) ''o9'' (Some ''ready'') 200 = (OrderNotFound, orderStore True)"
    using c valid up none by blast
  have fourth: "fst (updateOrderStatus (orderStore True) ''o1'' (Some ''ready'') 200)
       = Updated ((sampleOrder ''o1'' ''pending'')\<lparr>status := ''ready'', updatedAt := 200\<rparr>)
     \<and> filter (\<lambda>x. order_id x \<noteq> ''o1'') (orders (snd (updateOrderStatus (orderStore True) ''o1'' (Some ''ready'') 200)))
       = filter (\<lambda>x. order_id x \<noteq> ''o1'') (orders (orderStore True))"
    using d valid up some by blast
  from first second third fourth others show ?thesis by simp
qed

text \<open>
  The claim as stated leaves no room for the \<^verbatim>\<open>catch\<close> block: with the store
  unreachable a valid status is answered with 500, whether or not an order has the id.
\<close>

theorem unreachable_store_counterexample:
  "find (\<lambda>x. order_id x = ''o1'') (orders (orderStore False)) = Some (sampleOrder ''o1'' ''pending'')
   \<and> find (\<lambda>x. order_id x = ''o9'') (orders (orderStore False)) = None
   \<and> updateOrderStatus (orderStore False) ''o1'' (Some ''ready'') 200 = (UpdateFailed, orderStore False)
   \<and> updateOrderStatus (orderStore False) ''o9'' (Some ''ready'') 200 = (UpdateFailed, orderStore False)
   \<and> statusResponseCode UpdateFailed = 500"
  by (simp add: updateOrderStatus_def findByIdAndUpdate_def orderStore_def sampleOrder_def
        validStatuses_def)

end
